theory Spec2Isabelle
  imports Main "HOL-Library.Word"
begin

section \<open>JavaScript values\<close>

text \<open>
  A JavaScript string is a sequence of UTF-16 code units; regular expressions without the
  \<open>u\<close> flag, \<open>parseInt\<close>, \<open>split\<close>, \<open>trim\<close> and \<open>includes\<close> all work on code
  units. \<open>js\<close> embeds an ASCII literal.
\<close>

type_synonym code_unit = "16 word"
type_synonym jsstring = "code_unit list"

definition js :: "string \<Rightarrow> jsstring" where
  "js s = map of_char s"

text \<open>
  The JavaScript numbers that occur here: a double that holds an integer, the two
  infinities, or \<open>NaN\<close>. Minus zero is not told apart from zero (both print as \<open>0\<close>).
\<close>

datatype jsnum = NaN | Num int | Infinity | NegInfinity

definition jsNegate :: "jsnum \<Rightarrow> jsnum" where
  "jsNegate x =
     (case x of NaN \<Rightarrow> NaN | Num k \<Rightarrow> Num (- k) | Infinity \<Rightarrow> NegInfinity
      | NegInfinity \<Rightarrow> Infinity)"

text \<open>
  The double nearest to a natural number (round to nearest, ties to even), as the engines
  compute it for a decimal numeral: a number of at most 53 bits is kept; a longer one
  keeps its 53 leading bits, rounded; a result of \<open>2^1024\<close> or more is \<open>Infinity\<close>.
\<close>

fun bitLength :: "nat \<Rightarrow> nat" where
  "bitLength n = (if n = 0 then 0 else Suc (bitLength (n div 2)))"

declare bitLength.simps [simp del]

definition toDouble :: "nat \<Rightarrow> jsnum" where
  "toDouble n =
     (let len = bitLength n
      in if len \<le> 53 then Num (int n)
         else let shift = len - 53;
                  q = n div 2 ^ shift;
                  r = n mod 2 ^ shift;
                  half = 2 ^ (shift - 1);
                  q' = (if half < r \<or> (r = half \<and> odd q) then q + 1 else q);
                  v = q' * 2 ^ shift
              in if 2 ^ 1024 \<le> v then Infinity else Num (int v))"

text \<open>A thrown value: an \<open>Error\<close> object with its message, or anything else.\<close>

datatype exn = Error jsstring | NonError

definition isDigit :: "code_unit \<Rightarrow> bool" where
  "isDigit c \<longleftrightarrow> 0x30 \<le> c \<and> c \<le> 0x39"

definition notSlash :: "code_unit \<Rightarrow> bool" where
  "notSlash c \<longleftrightarrow> c \<noteq> 0x2F"

text \<open>
  \<open>StrWhiteSpaceChar\<close> of ECMAScript: the characters that \<open>parseInt\<close> skips at the start
  and that \<open>trim\<close> removes: TAB, LF, VT, FF, CR, SP, NBSP, the other space separators
  (U+1680, U+2000 to U+200A, U+202F, U+205F, U+3000), LS, PS and the byte order mark.
\<close>

definition isWhiteSpace :: "code_unit \<Rightarrow> bool" where
  "isWhiteSpace c \<longleftrightarrow>
     c \<in> {0x09, 0x0A, 0x0B, 0x0C, 0x0D, 0x20, 0xA0, 0x1680, 0x2028, 0x2029, 0x202F,
          0x205F, 0x3000, 0xFEFF} \<or> (0x2000 \<le> c \<and> c \<le> 0x200A)"

definition digitValue :: "code_unit \<Rightarrow> nat" where
  "digitValue c = unat c - 48"

definition decimalValue :: "jsstring \<Rightarrow> nat" where
  "decimalValue z = foldl (\<lambda>acc c. 10 * acc + digitValue c) 0 z"

text \<open>
  \<open>parseInt(s, 10)\<close>: skip leading white space, read an optional sign, take the longest
  run of decimal digits; \<open>NaN\<close> when that run is empty. Whatever follows the digits is
  ignored. The result is a double: the value of the digits rounded, with the sign.
\<close>

definition parseInt10 :: "jsstring \<Rightarrow> jsnum" where
  "parseInt10 inputString =
     (let s = dropWhile isWhiteSpace inputString;
          sign = (case s of c # _ \<Rightarrow> if c = 0x2D then - 1 else 1 | [] \<Rightarrow> (1::int));
          s' = (case s of c # cs \<Rightarrow> if c = 0x2B \<or> c = 0x2D then cs else s | [] \<Rightarrow> s);
          z = takeWhile isDigit s'
      in if z = [] then NaN
         else if sign = - 1 then jsNegate (toDouble (decimalValue z))
         else toDouble (decimalValue z))"

text \<open>\<open>s.split(d)\<close> for a separator of one code unit.\<close>

fun split :: "'a \<Rightarrow> 'a list \<Rightarrow> 'a list list" where
  "split d [] = [[]]"
| "split d (c # cs) =
     (if c = d then [] # split d cs
      else (case split d cs of seg # segs \<Rightarrow> (c # seg) # segs | [] \<Rightarrow> [[c]]))"

section \<open>The PR reference resolver\<close>

text \<open>
  \<open>parsePrReference\<close> of \<open>github-pr.ts\<close>, \<open>github-pr-review.ts\<close> and
  \<open>github-pr-comments.ts\<close> (the three copies are the same code).
\<close>

record PrReference =
  owner :: jsstring
  repo :: jsstring
  number :: jsnum

fun stripPrefix :: "'a list \<Rightarrow> 'a list \<Rightarrow> 'a list option" where
  "stripPrefix [] s = Some s"
| "stripPrefix (p # ps) [] = None"
| "stripPrefix (p # ps) (c # cs) = (if p = c then stripPrefix ps cs else None)"

text \<open>
  The regular expression \<open>/github\.com\/([^\/]+)\/([^\/]+)\/pull\/(\d+)/\<close> tried at the
  start of \<open>s\<close>. Each group is greedy. A group \<open>[^\/]+\<close> is followed in the pattern by a
  slash, so only its longest run can be continued and backtracking to a shorter run never
  succeeds; \<open>\d+\<close> ends the pattern, so its longest run is the match.
\<close>

definition matchHere :: "jsstring \<Rightarrow> (jsstring \<times> jsstring \<times> jsstring) option" where
  "matchHere s =
     (case stripPrefix (js ''github.com/'') s of
        None \<Rightarrow> None
      | Some s1 \<Rightarrow>
          let g1 = takeWhile notSlash s1 in
          if g1 = [] then None
          else case stripPrefix (js ''/'') (dropWhile notSlash s1) of
            None \<Rightarrow> None
          | Some s2 \<Rightarrow>
              let g2 = takeWhile notSlash s2 in
              if g2 = [] then None
              else case stripPrefix (js ''/pull/'') (dropWhile notSlash s2) of
                None \<Rightarrow> None
              | Some s3 \<Rightarrow>
                  let g3 = takeWhile isDigit s3 in
                  if g3 = [] then None else Some (g1, g2, g3))"

text \<open>\<open>pr.match(...)\<close>: the pattern is not anchored; the leftmost start that matches wins.\<close>

fun urlMatch :: "jsstring \<Rightarrow> (jsstring \<times> jsstring \<times> jsstring) option" where
  "urlMatch [] = matchHere []"
| "urlMatch (c # cs) =
     (case matchHere (c # cs) of Some m \<Rightarrow> Some m | None \<Rightarrow> urlMatch cs)"

definition invalidReference :: "jsstring \<Rightarrow> exn" where
  "invalidReference pr =
     Error (js ''Invalid PR reference: '' @ pr @ js ''. Provide a PR URL or number.'')"

text \<open>
  The second parameter is the optional \<open>repo\<close> argument (\<open>None\<close> when it is not given).
  \<open>if (repo)\<close> and \<open>if (owner && repoName)\<close> test for strings that are present and not
  empty; the destructuring reads the first two segments of the split.
\<close>

definition parsePrReference :: "jsstring \<Rightarrow> jsstring option \<Rightarrow> exn + PrReference" where
  "parsePrReference pr repoArg =
     (case urlMatch pr of
        Some (g1, g2, g3) \<Rightarrow> Inr \<lparr>owner = g1, repo = g2, number = parseInt10 g3\<rparr>
      | None \<Rightarrow>
          (case parseInt10 pr of
             NaN \<Rightarrow> Inl (invalidReference pr)
           | num \<Rightarrow>
               (case repoArg of
                  None \<Rightarrow> Inr \<lparr>owner = [], repo = [], number = num\<rparr>
                | Some r \<Rightarrow>
                    if r = [] then Inr \<lparr>owner = [], repo = [], number = num\<rparr>
                    else (case split 0x2F r of
                            ownerSeg # repoName # _ \<Rightarrow>
                              if ownerSeg \<noteq> [] \<and> repoName \<noteq> []
                              then Inr \<lparr>owner = ownerSeg, repo = repoName, number = num\<rparr>
                              else Inr \<lparr>owner = [], repo = [], number = num\<rparr>
                          | _ \<Rightarrow> Inr \<lparr>owner = [], repo = [], number = num\<rparr>))))"

text \<open>
  The shapes the specification speaks of: a path segment (non-empty, no slash), a digit
  string (non-empty), the text \<open>github.com/O/R/pull/N\<close>, a string that contains such a
  text, a number that is not negative, and a string that begins, after white space and an
  optional sign, with a digit.
\<close>

definition isSegment :: "jsstring \<Rightarrow> bool" where
  "isSegment g \<longleftrightarrow> g \<noteq> [] \<and> list_all notSlash g"

definition isDigits :: "jsstring \<Rightarrow> bool" where
  "isDigits z \<longleftrightarrow> z \<noteq> [] \<and> list_all isDigit z"

definition prUrlText :: "jsstring \<Rightarrow> jsstring \<Rightarrow> jsstring \<Rightarrow> jsstring" where
  "prUrlText g1 g2 g3 = js ''github.com/'' @ g1 @ js ''/'' @ g2 @ js ''/pull/'' @ g3"

definition containsPrUrl :: "jsstring \<Rightarrow> bool" where
  "containsPrUrl s \<longleftrightarrow>
     (\<exists>pre g1 g2 g3 post. s = pre @ prUrlText g1 g2 g3 @ post \<and>
        isSegment g1 \<and> isSegment g2 \<and> isDigits g3)"

definition nonNegative :: "jsnum \<Rightarrow> bool" where
  "nonNegative x = (case x of Num k \<Rightarrow> 0 \<le> k | Infinity \<Rightarrow> True | _ \<Rightarrow> False)"

definition leadingNumeral :: "jsstring \<Rightarrow> bool" where
  "leadingNumeral s =
     (case dropWhile isWhiteSpace s of
        [] \<Rightarrow> False
      | c # cs \<Rightarrow>
          if c = 0x2B \<or> c = 0x2D then (case cs of [] \<Rightarrow> False | d # _ \<Rightarrow> isDigit d)
          else isDigit c)"

section \<open>Helpers shared by the tools\<close>

text \<open>What \<open>execute\<close> does: the promise rejects with a thrown value, or resolves.\<close>

datatype 'a tool_result = Threw exn | Returned 'a

text \<open>\<open>s.includes(sub)\<close> and \<open>s.trim()\<close>.\<close>

fun jsIncludes :: "'a list \<Rightarrow> 'a list \<Rightarrow> bool" where
  "jsIncludes [] sub = (sub = [])"
| "jsIncludes (c # cs) sub = (stripPrefix sub (c # cs) \<noteq> None \<or> jsIncludes cs sub)"

definition trim :: "jsstring \<Rightarrow> jsstring" where
  "trim s = rev (dropWhile isWhiteSpace (rev (dropWhile isWhiteSpace s)))"

text \<open>
  A number inside a template literal. Integers print in decimal (the exponent notation
  of values from \<open>10^21\<close> on is not modelled); the other values print by name.
\<close>

fun decimalString :: "nat \<Rightarrow> jsstring" where
  "decimalString n =
     (if n < 10 then [of_nat (48 + n)]
      else decimalString (n div 10) @ [of_nat (48 + n mod 10)])"

declare decimalString.simps [simp del]

definition numberToString :: "jsnum \<Rightarrow> jsstring" where
  "numberToString x =
     (case x of
        NaN \<Rightarrow> js ''NaN''
      | Num k \<Rightarrow> if k < 0 then js ''-'' @ decimalString (nat (- k)) else decimalString (nat k)
      | Infinity \<Rightarrow> js ''Infinity''
      | NegInfinity \<Rightarrow> js ''-Infinity'')"

definition ghNotInstalled :: jsstring where
  "ghNotInstalled =
     js ''GitHub CLI (gh) is not installed. Please install it from https://cli.github.com/''"

definition notAuthenticated :: jsstring where
  "notAuthenticated = js ''Not authenticated with GitHub. Please run 'gh auth login' first.''"

definition unknownError :: jsstring where
  "unknownError = js ''An unknown error occurred''"

definition noRepository :: jsstring where
  "noRepository = js ''Could not determine repository. Please provide the full PR URL or run from within a git repository.''"

section \<open>The snapshot tool (\<open>github-pr.ts\<close>)\<close>

text \<open>
  The external calls. Each field stands for one \<open>gh\<close> invocation together with the
  \<open>.text()\<close>, \<open>.trim()\<close> and \<open>JSON.parse\<close> applied to its output, in the order of the
  source: \<open>Inl e\<close> when the process fails or the output does not parse (the thrown value
  is \<open>e\<close>), \<open>Inr\<close> the parsed value otherwise. Parsed values have the shape that the
  source reads from them; \<open>md_commits_length\<close> is \<open>metadata.commits.length\<close>. The
  arguments are the PR number and the repository flag.
\<close>

record pr_metadata =
  md_number :: int
  md_title :: jsstring
  md_body :: "jsstring option"
  md_author_login :: jsstring
  md_baseRefName :: jsstring
  md_headRefName :: jsstring
  md_state :: jsstring
  md_isDraft :: bool
  md_additions :: int
  md_deletions :: int
  md_changedFiles :: int
  md_commits_length :: nat
  md_createdAt :: jsstring
  md_updatedAt :: jsstring
  md_url :: jsstring

record pr_file =
  f_path :: jsstring
  f_additions :: int
  f_deletions :: int

record pr_commit =
  c_messageHeadline :: jsstring
  c_messageBody :: "jsstring option"

record pr_world =
  gh_pr_view_metadata :: "jsnum \<Rightarrow> jsstring \<Rightarrow> exn + pr_metadata"
  gh_pr_diff :: "jsnum \<Rightarrow> jsstring \<Rightarrow> exn + jsstring"
  gh_pr_view_files :: "jsnum \<Rightarrow> jsstring \<Rightarrow> exn + pr_file list"
  gh_pr_view_commits :: "jsnum \<Rightarrow> jsstring \<Rightarrow> exn + pr_commit list"

text \<open>The size category, lines 73 to 82, as a function of \<open>totalLinesChanged\<close>.\<close>

definition sizeCategory :: "int \<Rightarrow> jsstring" where
  "sizeCategory totalLinesChanged =
     (if totalLinesChanged \<le> 100 then js ''small''
      else if totalLinesChanged \<le> 500 then js ''medium''
      else if totalLinesChanged \<le> 1000 then js ''large''
      else js ''very large'')"

record pr_stats =
  st_additions :: int
  st_deletions :: int
  st_totalLinesChanged :: int
  st_changedFiles :: int
  st_sizeCategory :: jsstring
  st_commits :: nat

record pr_commit_message =
  cm_headline :: jsstring
  cm_body :: "jsstring option"

record snapshot_metadata =
  sm_number :: int
  sm_title :: jsstring
  sm_description :: jsstring
  sm_author :: jsstring
  sm_baseRef :: jsstring
  sm_headRef :: jsstring
  sm_state :: jsstring
  sm_isDraft :: bool
  sm_url :: jsstring
  sm_createdAt :: jsstring
  sm_updatedAt :: jsstring

record pr_snapshot =
  out_metadata :: snapshot_metadata
  out_stats :: pr_stats
  out_files :: "pr_file list"
  out_commitMessages :: "pr_commit_message list"
  out_diff :: jsstring

text \<open>The value given to \<open>JSON.stringify\<close>: the snapshot, or an object \<open>{error: ...}\<close>.\<close>

datatype pr_result = PrError jsstring | PrSnapshot pr_snapshot

text \<open>\<open>x || y\<close> on an optional string: \<open>y\<close> when \<open>x\<close> is missing, null or empty.\<close>

definition orElse :: "jsstring option \<Rightarrow> jsstring \<Rightarrow> jsstring" where
  "orElse x y = (case x of None \<Rightarrow> y | Some v \<Rightarrow> if v = [] then y else v)"

definition prTryBlock :: "pr_world \<Rightarrow> PrReference \<Rightarrow> jsstring \<Rightarrow> exn + pr_snapshot" where
  "prTryBlock w parsed repoFlag =
     (case gh_pr_view_metadata w (number parsed) repoFlag of
        Inl e \<Rightarrow> Inl e
      | Inr metadata \<Rightarrow>
     (case gh_pr_diff w (number parsed) repoFlag of
        Inl e \<Rightarrow> Inl e
      | Inr diffResult \<Rightarrow>
     (case gh_pr_view_files w (number parsed) repoFlag of
        Inl e \<Rightarrow> Inl e
      | Inr files \<Rightarrow>
     (case gh_pr_view_commits w (number parsed) repoFlag of
        Inl e \<Rightarrow> Inl e
      | Inr commits \<Rightarrow>
          let totalLinesChanged = md_additions metadata + md_deletions metadata
          in Inr \<lparr>out_metadata =
                    \<lparr>sm_number = md_number metadata,
                     sm_title = md_title metadata,
                     sm_description = orElse (md_body metadata) (js ''(no description)''),
                     sm_author = md_author_login metadata,
                     sm_baseRef = md_baseRefName metadata,
                     sm_headRef = md_headRefName metadata,
                     sm_state = md_state metadata,
                     sm_isDraft = md_isDraft metadata,
                     sm_url = md_url metadata,
                     sm_createdAt = md_createdAt metadata,
                     sm_updatedAt = md_updatedAt metadata\<rparr>,
                  out_stats = \<lparr>st_additions = md_additions metadata,
                               st_deletions = md_deletions metadata,
                               st_totalLinesChanged = totalLinesChanged,
                               st_changedFiles = md_changedFiles metadata,
                               st_sizeCategory = sizeCategory totalLinesChanged,
                               st_commits = md_commits_length metadata\<rparr>,
                  out_files = files,
                  out_commitMessages =
                    map (\<lambda>c. \<lparr>cm_headline = c_messageHeadline c,
                                 cm_body = (case c_messageBody c of
                                              None \<Rightarrow> None
                                            | Some b \<Rightarrow> if b = [] then None else Some b)\<rparr>)
                      commits,
                  out_diff = trim diffResult\<rparr>))))"

definition prCatch :: "PrReference \<Rightarrow> exn \<Rightarrow> pr_result" where
  "prCatch parsed e =
     (case e of
        Error message \<Rightarrow>
          if jsIncludes message (js ''gh: command not found'') then PrError ghNotInstalled
          else if jsIncludes message (js ''not logged in'') then PrError notAuthenticated
          else if jsIncludes message (js ''Could not resolve'') then
            PrError (js ''Could not find PR #'' @ numberToString (number parsed) @
              js ''. Make sure you're in a git repository or provide the full PR URL.'')
          else PrError message
      | NonError \<Rightarrow> PrError unknownError)"

text \<open>\<open>parsePrReference\<close> is called before the \<open>try\<close>: what it throws is not caught.\<close>

definition execute_pr :: "pr_world \<Rightarrow> jsstring \<Rightarrow> jsstring option \<Rightarrow> pr_result tool_result" where
  "execute_pr w pr repoArg =
     (case parsePrReference pr repoArg of
        Inl e \<Rightarrow> Threw e
      | Inr parsed \<Rightarrow>
          let repoFlag = (if owner parsed \<noteq> [] \<and> repo parsed \<noteq> []
                          then js ''-R '' @ owner parsed @ js ''/'' @ repo parsed else [])
          in (case prTryBlock w parsed repoFlag of
                Inr output \<Rightarrow> Returned (PrSnapshot output)
              | Inl e \<Rightarrow> Returned (prCatch parsed e)))"

section \<open>The comment tool (\<open>github-pr-comments.ts\<close>)\<close>

text \<open>
  \<open>isLikelyBot\<close>: nine patterns with the \<open>i\<close> flag. The patterns hold ASCII letters,
  brackets and a hyphen only, and without the \<open>u\<close> flag no character outside ASCII is
  folded onto an ASCII one, so a pattern character matches its two ASCII cases.
\<close>

definition toLower :: "code_unit \<Rightarrow> code_unit" where
  "toLower c = (if 0x41 \<le> c \<and> c \<le> 0x5A then c + 0x20 else c)"

definition endsWithCI :: "jsstring \<Rightarrow> string \<Rightarrow> bool" where
  "endsWithCI login pat \<longleftrightarrow>
     stripPrefix (rev (js pat)) (rev (map toLower login)) \<noteq> None"

definition equalsCI :: "jsstring \<Rightarrow> string \<Rightarrow> bool" where
  "equalsCI login pat \<longleftrightarrow> map toLower login = js pat"

definition isLikelyBot :: "jsstring \<Rightarrow> bool" where
  "isLikelyBot login \<longleftrightarrow>
     endsWithCI login ''[bot]'' \<or> endsWithCI login ''bot'' \<or>
     equalsCI login ''github-actions'' \<or> equalsCI login ''dependabot'' \<or>
     equalsCI login ''renovate'' \<or> equalsCI login ''codecov'' \<or>
     equalsCI login ''sonarcloud'' \<or> equalsCI login ''netlify'' \<or>
     equalsCI login ''vercel''"

text \<open>
  The objects of the three GitHub endpoints, with the properties that the source reads
  (its inline type annotations), and the interfaces \<open>ReviewComment\<close>, \<open>IssueComment\<close>
  and \<open>Review\<close>. A property that may be null or missing is an option.
\<close>

record raw_review_comment =
  raw_rc_id :: int
  raw_rc_path :: jsstring
  raw_rc_line :: "int option"
  raw_rc_original_line :: "int option"
  raw_rc_side :: jsstring
  raw_rc_body :: jsstring
  raw_rc_user_login :: jsstring
  raw_rc_created_at :: jsstring
  raw_rc_updated_at :: jsstring
  raw_rc_in_reply_to_id :: "int option"
  raw_rc_diff_hunk :: jsstring
  raw_rc_html_url :: jsstring

record ReviewComment =
  rc_id :: int
  rc_path :: jsstring
  rc_line :: "int option"
  rc_originalLine :: "int option"
  rc_side :: jsstring
  rc_body :: jsstring
  rc_author :: jsstring
  rc_isBot :: bool
  rc_createdAt :: jsstring
  rc_updatedAt :: jsstring
  rc_inReplyToId :: "int option"
  rc_diffHunk :: jsstring
  rc_url :: jsstring

record raw_issue_comment =
  raw_ic_id :: int
  raw_ic_body :: jsstring
  raw_ic_user_login :: jsstring
  raw_ic_created_at :: jsstring
  raw_ic_updated_at :: jsstring
  raw_ic_html_url :: jsstring

record IssueComment =
  ic_id :: int
  ic_body :: jsstring
  ic_author :: jsstring
  ic_isBot :: bool
  ic_createdAt :: jsstring
  ic_updatedAt :: jsstring
  ic_url :: jsstring

record raw_review =
  raw_rv_id :: int
  raw_rv_state :: jsstring
  raw_rv_body :: "jsstring option"
  raw_rv_user_login :: jsstring
  raw_rv_submitted_at :: jsstring
  raw_rv_html_url :: jsstring

record Review =
  rv_id :: int
  rv_state :: jsstring
  rv_body :: jsstring
  rv_author :: jsstring
  rv_isBot :: bool
  rv_submittedAt :: jsstring
  rv_url :: jsstring

text \<open>Lines 117 to 144; \<open>c.in_reply_to_id || null\<close> turns a missing id and the id 0 into null.\<close>

definition toReviewComment :: "raw_review_comment \<Rightarrow> ReviewComment" where
  "toReviewComment c =
     \<lparr>rc_id = raw_rc_id c, rc_path = raw_rc_path c, rc_line = raw_rc_line c,
      rc_originalLine = raw_rc_original_line c, rc_side = raw_rc_side c,
      rc_body = raw_rc_body c, rc_author = raw_rc_user_login c,
      rc_isBot = isLikelyBot (raw_rc_user_login c),
      rc_createdAt = raw_rc_created_at c, rc_updatedAt = raw_rc_updated_at c,
      rc_inReplyToId = (case raw_rc_in_reply_to_id c of
                          None \<Rightarrow> None
                        | Some k \<Rightarrow> if k = 0 then None else Some k),
      rc_diffHunk = raw_rc_diff_hunk c, rc_url = raw_rc_html_url c\<rparr>"

definition toIssueComment :: "raw_issue_comment \<Rightarrow> IssueComment" where
  "toIssueComment c =
     \<lparr>ic_id = raw_ic_id c, ic_body = raw_ic_body c, ic_author = raw_ic_user_login c,
      ic_isBot = isLikelyBot (raw_ic_user_login c), ic_createdAt = raw_ic_created_at c,
      ic_updatedAt = raw_ic_updated_at c, ic_url = raw_ic_html_url c\<rparr>"

definition toReview :: "raw_review \<Rightarrow> Review" where
  "toReview r =
     \<lparr>rv_id = raw_rv_id r, rv_state = raw_rv_state r, rv_body = orElse (raw_rv_body r) [],
      rv_author = raw_rv_user_login r, rv_isBot = isLikelyBot (raw_rv_user_login r),
      rv_submittedAt = raw_rv_submitted_at r, rv_url = raw_rv_html_url r\<rparr>"

text \<open>Lines 171 to 188: pending reviews are filtered out, the others reshaped.\<close>

definition submittedReviews :: "raw_review list \<Rightarrow> Review list" where
  "submittedReviews reviewsRaw =
     map toReview (filter (\<lambda>r. raw_rv_state r \<noteq> js ''PENDING'') reviewsRaw)"

text \<open>
  Lines 199 to 204. \<open>!c.inReplyToId\<close> holds for null and for 0;
  \<open>c.inReplyToId === parent.id\<close> holds for a number equal to the id.
\<close>

record CommentThread =
  parent :: ReviewComment
  replies :: "ReviewComment list"

definition isTopLevel :: "ReviewComment \<Rightarrow> bool" where
  "isTopLevel c \<longleftrightarrow> (case rc_inReplyToId c of None \<Rightarrow> True | Some k \<Rightarrow> k = 0)"

definition assembleThreads :: "ReviewComment list \<Rightarrow> CommentThread list" where
  "assembleThreads reviewComments =
     map (\<lambda>p. \<lparr>parent = p,
                replies = filter (\<lambda>c. rc_inReplyToId c = Some (rc_id p)) reviewComments\<rparr>)
       (filter isTopLevel reviewComments)"

text \<open>
  Lines 191 to 197. \<open>commentsByFile\<close> is a plain object used as a dictionary. For a path
  that names a property of \<open>Object.prototype\<close> the lookup finds that inherited value,
  which has no \<open>push\<close>, and the call throws a \<open>TypeError\<close>.
\<close>

definition objectPrototypeKeys :: "jsstring list" where
  "objectPrototypeKeys =
     map js [''constructor'', ''hasOwnProperty'', ''isPrototypeOf'', ''propertyIsEnumerable'',
             ''toLocaleString'', ''toString'', ''valueOf'', ''__proto__'', ''__defineGetter__'',
             ''__defineSetter__'', ''__lookupGetter__'', ''__lookupSetter__'']"

fun groupByFile ::
  "exn \<Rightarrow> (jsstring \<rightharpoonup> ReviewComment list) \<Rightarrow> ReviewComment list
     \<Rightarrow> exn + (jsstring \<rightharpoonup> ReviewComment list)" where
  "groupByFile typeError commentsByFile [] = Inr commentsByFile"
| "groupByFile typeError commentsByFile (comment # rest) =
     (if rc_path comment \<in> set objectPrototypeKeys then Inl typeError
      else groupByFile typeError
             (commentsByFile(rc_path comment \<mapsto>
                (case commentsByFile (rc_path comment) of None \<Rightarrow> [] | Some b \<Rightarrow> b) @ [comment]))
             rest)"

record comment_stats =
  totalReviewComments :: nat
  totalIssueComments :: nat
  totalReviews :: nat
  filesWithComments :: nat
  botComments :: nat
  unresolvedThreads :: nat

record comments_output =
  co_stats :: comment_stats
  co_reviews :: "Review list"
  co_issueComments :: "IssueComment list"
  co_reviewComments :: "ReviewComment list"
  co_commentsByFile :: "jsstring \<rightharpoonup> ReviewComment list"
  co_threads :: "CommentThread list"

datatype comments_result = CommentsError jsstring | CommentsOutput comments_output

text \<open>
  The external calls of this tool. \<open>cw_repo_view\<close> is the text printed by
  \<open>gh repo view\<close>; the three others stand for the \<open>gh api\<close> call, the default
  \<open>|| "[]"\<close> and \<open>JSON.parse\<close>, and take the repository and the PR number.
  \<open>cw_typeError\<close> is the \<open>TypeError\<close> of the engine for a call of \<open>undefined\<close>.
\<close>

record comments_world =
  cw_repo_view :: "exn + jsstring"
  cw_review_comments :: "jsstring \<Rightarrow> jsnum \<Rightarrow> exn + raw_review_comment list"
  cw_issue_comments :: "jsstring \<Rightarrow> jsnum \<Rightarrow> exn + raw_issue_comment list"
  cw_reviews :: "jsstring \<Rightarrow> jsnum \<Rightarrow> exn + raw_review list"
  cw_typeError :: exn

definition commentsTryBlock ::
  "comments_world \<Rightarrow> jsstring \<Rightarrow> PrReference \<Rightarrow> exn + comments_output" where
  "commentsTryBlock w repoContext parsed =
     (case cw_review_comments w repoContext (number parsed) of
        Inl e \<Rightarrow> Inl e
      | Inr reviewCommentsRaw \<Rightarrow>
     (case cw_issue_comments w repoContext (number parsed) of
        Inl e \<Rightarrow> Inl e
      | Inr issueCommentsRaw \<Rightarrow>
     (case cw_reviews w repoContext (number parsed) of
        Inl e \<Rightarrow> Inl e
      | Inr reviewsRaw \<Rightarrow>
          let reviewComments = map toReviewComment reviewCommentsRaw;
              issueComments = map toIssueComment issueCommentsRaw;
              reviews = submittedReviews reviewsRaw
          in (case groupByFile (cw_typeError w) Map.empty reviewComments of
                Inl e \<Rightarrow> Inl e
              | Inr commentsByFile \<Rightarrow>
                  let threads = assembleThreads reviewComments
                  in Inr \<lparr>co_stats =
                            \<lparr>totalReviewComments = length reviewComments,
                             totalIssueComments = length issueComments,
                             totalReviews = length reviews,
                             filesWithComments = card (dom commentsByFile),
                             botComments = length (filter rc_isBot reviewComments)
                                           + length (filter ic_isBot issueComments),
                             unresolvedThreads = length threads\<rparr>,
                          co_reviews = reviews,
                          co_issueComments = issueComments,
                          co_reviewComments = reviewComments,
                          co_commentsByFile = commentsByFile,
                          co_threads = threads\<rparr>))))"

definition commentsCatch :: "exn \<Rightarrow> comments_result" where
  "commentsCatch e =
     (case e of
        Error message \<Rightarrow>
          if jsIncludes message (js ''gh: command not found'') then CommentsError ghNotInstalled
          else if jsIncludes message (js ''not logged in'') \<or> jsIncludes message (js ''401'')
          then CommentsError notAuthenticated
          else CommentsError message
      | NonError \<Rightarrow> CommentsError unknownError)"

definition execute_comments ::
  "comments_world \<Rightarrow> jsstring \<Rightarrow> jsstring option \<Rightarrow> comments_result tool_result" where
  "execute_comments w pr repoArg =
     (case parsePrReference pr repoArg of
        Inl e \<Rightarrow> Threw e
      | Inr parsed \<Rightarrow>
          (case (if owner parsed \<noteq> [] \<and> repo parsed \<noteq> []
                 then Inr (owner parsed @ js ''/'' @ repo parsed)
                 else (case cw_repo_view w of
                         Inl e \<Rightarrow> Inl (CommentsError noRepository)
                       | Inr repoResult \<Rightarrow> Inr (trim repoResult))) of
             Inl r \<Rightarrow> Returned r
           | Inr repoContext \<Rightarrow>
               (case commentsTryBlock w repoContext parsed of
                  Inr output \<Rightarrow> Returned (CommentsOutput output)
                | Inl e \<Rightarrow> Returned (commentsCatch e))))"

section \<open>The review tool (\<open>github-pr-review.ts\<close>)\<close>

text \<open>
  The values handed to \<open>JSON.stringify\<close>. An object is the list of its properties in
  insertion order. \<open>JSON.stringify\<close> leaves out a property whose value is
  \<open>undefined\<close>, so such a property is not in the list: \<open>optField\<close> adds a property
  only when its value is defined.
\<close>

datatype json =
    JNull
  | JBool bool
  | JNumber jsnum
  | JString jsstring
  | JArray "json list"
  | JObject "(jsstring \<times> json) list"

definition optField :: "string \<Rightarrow> json option \<Rightarrow> (jsstring \<times> json) list" where
  "optField k v = (case v of None \<Rightarrow> [] | Some x \<Rightarrow> [(js k, x)])"

definition properties :: "json \<Rightarrow> (jsstring \<times> json) list" where
  "properties v = (case v of JObject fs \<Rightarrow> fs | _ \<Rightarrow> [])"

definition keys :: "json \<Rightarrow> jsstring list" where
  "keys v = map fst (properties v)"

definition field :: "string \<Rightarrow> json \<Rightarrow> json option" where
  "field k v = map_of (properties v) (js k)"

definition elements :: "json option \<Rightarrow> json list" where
  "elements v = (case v of Some (JArray xs) \<Rightarrow> xs | _ \<Rightarrow> [])"

datatype side = LEFT | RIGHT

datatype review_event = COMMENT | APPROVE | REQUEST_CHANGES

definition sideName :: "side \<Rightarrow> jsstring" where
  "sideName s = (case s of LEFT \<Rightarrow> js ''LEFT'' | RIGHT \<Rightarrow> js ''RIGHT'')"

definition eventName :: "review_event \<Rightarrow> jsstring" where
  "eventName e =
     (case e of COMMENT \<Rightarrow> js ''COMMENT'' | APPROVE \<Rightarrow> js ''APPROVE''
      | REQUEST_CHANGES \<Rightarrow> js ''REQUEST_CHANGES'')"

text \<open>\<open>commentSchema\<close>: an inline comment as the caller gives it. Line numbers are integers.\<close>

record InlineComment =
  path :: jsstring
  line :: int
  side :: "side option"
  startLine :: "int option"
  startSide :: "side option"
  body :: jsstring

text \<open>
  Lines 103 to 120: one comment of the payload. \<open>if (c.side)\<close> and \<open>if (c.startSide)\<close>
  hold when the value is given; \<open>if (c.startLine)\<close> holds when it is given and not 0.
\<close>

definition payloadComment :: "InlineComment \<Rightarrow> json" where
  "payloadComment c =
     JObject ([(js ''path'', JString (path c)),
               (js ''line'', JNumber (Num (line c))),
               (js ''body'', JString (body c))]
              @ optField ''side'' (map_option (\<lambda>s. JString (sideName s)) (side c))
              @ optField ''start_line''
                  (case startLine c of None \<Rightarrow> None
                   | Some n \<Rightarrow> if n = 0 then None else Some (JNumber (Num n)))
              @ optField ''start_side'' (map_option (\<lambda>s. JString (sideName s)) (startSide c)))"

text \<open>Lines 83 to 121: the review payload; \<open>comments\<close> is set only for a non-empty list.\<close>

definition buildReviewPayload ::
  "jsstring \<Rightarrow> jsstring \<Rightarrow> review_event \<Rightarrow> InlineComment list \<Rightarrow> json" where
  "buildReviewPayload commitId reviewBody event comments =
     JObject ([(js ''commit_id'', JString commitId),
               (js ''body'', JString reviewBody),
               (js ''event'', JString (eventName event))]
              @ (if length comments > 0
                 then [(js ''comments'', JArray (map payloadComment comments))] else []))"

text \<open>Lines 136 to 141: one comment of the dry-run echo.\<close>

definition previewComment :: "InlineComment \<Rightarrow> json" where
  "previewComment c =
     JObject ([(js ''file'', JString (path c)),
               (js ''line'', JNumber (Num (line c)))]
              @ optField ''startLine'' (map_option (\<lambda>n. JNumber (Num n)) (startLine c))
              @ [(js ''body'', JString (body c))])"

text \<open>Lines 124 to 146: what the dry run returns.\<close>

definition dryRunResult ::
  "jsstring \<Rightarrow> PrReference \<Rightarrow> review_event \<Rightarrow> jsstring \<Rightarrow> InlineComment list \<Rightarrow> json" where
  "dryRunResult repoContext parsed event reviewBody comments =
     JObject [(js ''dryRun'', JBool True),
              (js ''wouldSubmit'',
                 JObject [(js ''repository'', JString repoContext),
                          (js ''pullRequest'', JNumber (number parsed)),
                          (js ''prUrl'', JString (js ''https://github.com/'' @ repoContext
                                            @ js ''/pull/'' @ numberToString (number parsed))),
                          (js ''event'', JString (eventName event)),
                          (js ''reviewBody'', JString reviewBody),
                          (js ''inlineComments'', JArray (map previewComment comments)),
                          (js ''totalInlineComments'', JNumber (Num (int (length comments))))]),
              (js ''message'', JString (js ''Dry run complete. No review was submitted. Remove --dry-run to submit the review.''))]"

text \<open>
  The external calls that can answer, and what the source relies on from the engine:
  \<open>JSON.parse\<close>, the text of a value inside a template literal (\<open>None\<close> is
  \<open>undefined\<close>), the \<open>TypeError\<close> for reading a property of null, and the error of
  the shell for a here-string.
\<close>

record review_world =
  rw_repo_view :: "exn + jsstring"
  rw_head_sha :: "jsstring \<Rightarrow> jsnum \<Rightarrow> exn + jsstring"
  rw_hereString :: exn
  rw_JSON_parse :: "jsstring \<Rightarrow> exn + json"
  rw_toString :: "json option \<Rightarrow> jsstring"
  rw_typeError :: exn

text \<open>
  The \<open>gh\<close> commands that \<open>execute\<close> hands to the shell \<open>Bun.$\<close>, in the order in
  which it reaches them: lines 62, 74 and 153.
\<close>

datatype gh_call =
    RepoView
  | HeadSha jsstring jsnum
  | PostReview jsstring jsnum json


text \<open>A property read \<open>v.k\<close> on a parsed JSON value, for a key that no prototype has.\<close>

definition getProp :: "exn \<Rightarrow> json \<Rightarrow> string \<Rightarrow> exn + json option" where
  "getProp typeError v k =
     (case v of JNull \<Rightarrow> Inl typeError | JObject fs \<Rightarrow> Inr (map_of fs (js k)) | _ \<Rightarrow> Inr None)"

definition errorObject :: "jsstring \<Rightarrow> json" where
  "errorObject message = JObject [(js ''error'', JString message)]"

text \<open>
  \<open>error.message.match(/\{[\s\S]*\}/)\<close>: from the first opening brace to the last closing
  brace after it.
\<close>

definition braceMatch :: "jsstring \<Rightarrow> jsstring option" where
  "braceMatch message =
     (case dropWhile (\<lambda>c. c \<noteq> 0x7B) message of
        [] \<Rightarrow> None
      | b # rest \<Rightarrow>
          let inner = rev (dropWhile (\<lambda>c. c \<noteq> 0x7D) (rev rest))
          in if inner = [] then None else Some (b # inner))"

text \<open>Lines 174 to 186: the inner \<open>try\<close>; \<open>None\<close> when control falls through.\<close>

definition apiErrorResult :: "review_world \<Rightarrow> jsstring \<Rightarrow> json option" where
  "apiErrorResult w message =
     (case braceMatch message of
        None \<Rightarrow> None
      | Some text \<Rightarrow>
          (case rw_JSON_parse w text of
             Inl _ \<Rightarrow> None
           | Inr apiError \<Rightarrow>
               (case getProp (rw_typeError w) apiError ''message'' of
                  Inl _ \<Rightarrow> None
                | Inr m \<Rightarrow>
                    (case getProp (rw_typeError w) apiError ''errors'' of
                       Inl _ \<Rightarrow> None
                     | Inr es \<Rightarrow>
                         Some (JObject ([(js ''error'', JString (js ''Failed to submit review''))]
                                        @ optField ''message'' m @ optField ''errors'' es))))))"

definition reviewCatch :: "review_world \<Rightarrow> exn \<Rightarrow> json" where
  "reviewCatch w e =
     (case e of
        Error message \<Rightarrow>
          (case apiErrorResult w message of
             Some r \<Rightarrow> r
           | None \<Rightarrow>
               if jsIncludes message (js ''gh: command not found'') then errorObject ghNotInstalled
               else if jsIncludes message (js ''not logged in'') \<or> jsIncludes message (js ''401'')
               then errorObject notAuthenticated
               else if jsIncludes message (js ''422'') then
                 JObject [(js ''error'', JString (js ''Invalid review submission. This often means a comment references a line that doesn't exist in the diff. Check that all line numbers are correct.'')),
                          (js ''details'', JString message)]
               else errorObject message)
      | NonError \<Rightarrow> errorObject unknownError)"

text \<open>Lines 149 to 170: the body of the last \<open>try\<close>, after the call has returned \<open>result\<close>.\<close>

definition submitSuccess ::
  "review_world \<Rightarrow> jsstring \<Rightarrow> PrReference \<Rightarrow> review_event \<Rightarrow> InlineComment list
     \<Rightarrow> jsstring \<Rightarrow> exn + json" where
  "submitSuccess w repoContext parsed event comments result =
     (case rw_JSON_parse w result of
        Inl e \<Rightarrow> Inl e
      | Inr response \<Rightarrow>
          (case getProp (rw_typeError w) response ''id'' of
             Inl e \<Rightarrow> Inl e
           | Inr rid \<Rightarrow>
               let url = (case getProp (rw_typeError w) response ''html_url'' of
                            Inr u \<Rightarrow> u | Inl _ \<Rightarrow> None);
                   st = (case getProp (rw_typeError w) response ''state'' of
                           Inr u \<Rightarrow> u | Inl _ \<Rightarrow> None);
                   at = (case getProp (rw_typeError w) response ''submitted_at'' of
                           Inr u \<Rightarrow> u | Inl _ \<Rightarrow> None)
               in Inr (JObject
                    ([(js ''success'', JBool True)]
                     @ optField ''reviewId'' rid @ optField ''reviewUrl'' url
                     @ optField ''state'' st @ optField ''submittedAt'' at
                     @ [(js ''summary'',
                           JObject [(js ''repository'', JString repoContext),
                                    (js ''pullRequest'', JNumber (number parsed)),
                                    (js ''event'', JString (eventName event)),
                                    (js ''inlineCommentsPosted'',
                                       JNumber (Num (int (length comments))))]),
                        (js ''message'',
                           JString (js ''Review submitted successfully. View it at: ''
                                    @ rw_toString w url))]))))"

definition headShaError :: "exn \<Rightarrow> json" where
  "headShaError e =
     errorObject (js ''Could not fetch PR details: ''
                  @ (case e of Error message \<Rightarrow> message | NonError \<Rightarrow> js ''unknown error''))"

text \<open>
  Lines 57 to 69: the repository of the reference, or the one that \<open>gh repo view\<close>
  prints; with the commands handed to the shell. \<open>Inl\<close> is the error object that \<open>execute\<close>
  returns when the call fails.
\<close>

definition resolveRepoContext ::
  "review_world \<Rightarrow> PrReference \<Rightarrow> (json + jsstring) \<times> gh_call list" where
  "resolveRepoContext w parsed =
     (if owner parsed \<noteq> [] \<and> repo parsed \<noteq> []
      then (Inr (owner parsed @ js ''/'' @ repo parsed), [])
      else (case rw_repo_view w of
              Inl e \<Rightarrow> (Inl (errorObject noRepository), [RepoView])
            | Inr repoResult \<Rightarrow> (Inr (trim repoResult), [RepoView])))"

text \<open>
  Line 153. The command ends in a here-string of bash, \<open><<< ${payloadJson}\<close>. The shell
  of Bun has no here-strings: it rejects the command when it reads it, before \<open>gh\<close> is
  started, and \<open>Bun.$\<close> throws (the error reads \<open>Redirection with no file\<close>). The
  thrown value is \<open>rw_hereString\<close> of the world; the command never yields a result.
\<close>

definition postReview :: "review_world \<Rightarrow> jsstring \<Rightarrow> jsnum \<Rightarrow> json \<Rightarrow> exn + jsstring" where
  "postReview w repoContext prNumber payload = Inl (rw_hereString w)"

definition withDefault :: "'a \<Rightarrow> 'a option \<Rightarrow> 'a" where
  "withDefault d x = (case x of None \<Rightarrow> d | Some v \<Rightarrow> v)"

text \<open>
  \<open>execute\<close>, with the commands it has handed to the shell. The arguments after the world
  are \<open>pr\<close>, \<open>repo\<close>, \<open>body\<close>, \<open>event\<close>, \<open>comments\<close> and \<open>dryRun\<close>; the last three
  have the defaults \<open>"COMMENT"\<close>, \<open>[]\<close> and \<open>false\<close>.
\<close>

definition execute_review ::
  "review_world \<Rightarrow> jsstring \<Rightarrow> jsstring option \<Rightarrow> jsstring \<Rightarrow> review_event option
     \<Rightarrow> InlineComment list option \<Rightarrow> bool option \<Rightarrow> json tool_result \<times> gh_call list" where
  "execute_review w pr repoArg reviewBody eventArg commentsArg dryRunArg =
     (let event = withDefault COMMENT eventArg;
          comments = withDefault [] commentsArg;
          dryRun = withDefault False dryRunArg
      in case parsePrReference pr repoArg of
           Inl e \<Rightarrow> (Threw e, [])
         | Inr parsed \<Rightarrow>
             (case resolveRepoContext w parsed of
                (Inl r, calls) \<Rightarrow> (Returned r, calls)
              | (Inr repoContext, calls) \<Rightarrow>
                  (case rw_head_sha w repoContext (number parsed) of
                     Inl e \<Rightarrow>
                       (Returned (headShaError e), calls @ [HeadSha repoContext (number parsed)])
                   | Inr prResult \<Rightarrow>
                       let commitId = trim prResult;
                           reviewPayload = buildReviewPayload commitId reviewBody event comments;
                           calls' = calls @ [HeadSha repoContext (number parsed)]
                       in if dryRun
                          then (Returned (dryRunResult repoContext parsed event reviewBody comments),
                                calls')
                          else
                            (case (case postReview w repoContext (number parsed) reviewPayload of
                                     Inl e \<Rightarrow> Inl e
                                   | Inr result \<Rightarrow>
                                       submitSuccess w repoContext parsed event comments result) of
                               Inr r \<Rightarrow>
                                 (Returned r,
                                  calls' @ [PostReview repoContext (number parsed) reviewPayload])
                             | Inl e \<Rightarrow>
                                 (Returned (reviewCatch w e),
                                  calls' @ [PostReview repoContext (number parsed) reviewPayload])))))"

text \<open>A world for examples: in repository \<open>o/r\<close>, the two reading calls succeed.\<close>

definition sampleWorld :: review_world where
  "sampleWorld =
     \<lparr>rw_repo_view = Inr (js ''o/r''),
      rw_head_sha = (\<lambda>_ _. Inr (js ''abc123'')),
      rw_hereString = Error (js ''Redirection with no file''),
      rw_JSON_parse = (\<lambda>_. Inr (JObject [])),
      rw_toString = (\<lambda>_. js ''undefined''),
      rw_typeError = Error (js ''TypeError'')\<rparr>"

text \<open>
  Worlds for examples of the two other tools: a PR with 60 additions and 41 deletions, and
  a PR with the four review comments \<open>A(id=1)\<close>, \<open>B(id=2, reply to 1)\<close>,
  \<open>C(id=3, reply to 1)\<close>, \<open>D(id=4, reply to 99)\<close> and three reviews, the second
  pending.
\<close>

definition samplePrWorld :: pr_world where
  "samplePrWorld =
     \<lparr>gh_pr_view_metadata = (\<lambda>_ _. Inr
        \<lparr>md_number = 7, md_title = js ''Fix'', md_body = None, md_author_login = js ''octocat'',
         md_baseRefName = js ''main'', md_headRefName = js ''fix'', md_state = js ''OPEN'',
         md_isDraft = False, md_additions = 60, md_deletions = 41, md_changedFiles = 2,
         md_commits_length = 1, md_createdAt = [], md_updatedAt = [], md_url = []\<rparr>),
      gh_pr_diff = (\<lambda>_ _. Inr (js ''diff'')),
      gh_pr_view_files = (\<lambda>_ _. Inr []),
      gh_pr_view_commits = (\<lambda>_ _. Inr [])\<rparr>"

definition sampleComment :: "int \<Rightarrow> int option \<Rightarrow> raw_review_comment" where
  "sampleComment i r =
     \<lparr>raw_rc_id = i, raw_rc_path = js ''a.ts'', raw_rc_line = Some 1,
      raw_rc_original_line = Some 1, raw_rc_side = js ''RIGHT'', raw_rc_body = js ''text'',
      raw_rc_user_login = js ''octocat'', raw_rc_created_at = [], raw_rc_updated_at = [],
      raw_rc_in_reply_to_id = r, raw_rc_diff_hunk = [], raw_rc_html_url = []\<rparr>"

definition sampleReview :: "int \<Rightarrow> string \<Rightarrow> raw_review" where
  "sampleReview i st =
     \<lparr>raw_rv_id = i, raw_rv_state = js st, raw_rv_body = None,
      raw_rv_user_login = js ''octocat'', raw_rv_submitted_at = [], raw_rv_html_url = []\<rparr>"

definition sampleCommentsWorld :: comments_world where
  "sampleCommentsWorld =
     \<lparr>cw_repo_view = Inr (js ''o/r''),
      cw_review_comments = (\<lambda>_ _. Inr [sampleComment 1 None, sampleComment 2 (Some 1),
                                        sampleComment 3 (Some 1), sampleComment 4 (Some 99)]),
      cw_issue_comments = (\<lambda>_ _. Inr []),
      cw_reviews = (\<lambda>_ _. Inr [sampleReview 11 ''APPROVED'', sampleReview 12 ''PENDING'',
                                sampleReview 13 ''COMMENTED'']),
      cw_typeError = Error (js ''TypeError'')\<rparr>"

text \<open>
  Projections for stating properties of the two shapes: the inline comments of a payload,
  the inline comments of a dry-run echo, and a property of its \<open>wouldSubmit\<close> object.
\<close>

definition payloadComments :: "json \<Rightarrow> json list" where
  "payloadComments payload = elements (field ''comments'' payload)"

definition previewComments :: "json \<Rightarrow> json list" where
  "previewComments preview =
     elements (case field ''wouldSubmit'' preview of
                 Some ws \<Rightarrow> field ''inlineComments'' ws | None \<Rightarrow> None)"

definition previewField :: "string \<Rightarrow> json \<Rightarrow> json option" where
  "previewField k preview =
     (case field ''wouldSubmit'' preview of Some ws \<Rightarrow> field k ws | None \<Rightarrow> None)"

section \<open>Properties of the resolver\<close>

lemma stripPrefix_Some_iff: "stripPrefix p s = Some r \<longleftrightarrow> s = p @ r"
  by (induction p s rule: stripPrefix.induct) auto

lemma takeWhile_run:
  "list_all P g \<Longrightarrow> (t = [] \<or> \<not> P (hd t)) \<Longrightarrow> takeWhile P (g @ t) = g"
  by (cases t) (auto simp: list_all_iff)

lemma dropWhile_run:
  "list_all P g \<Longrightarrow> (t = [] \<or> \<not> P (hd t)) \<Longrightarrow> dropWhile P (g @ t) = t"
  by (cases t) (auto simp: list_all_iff)

lemma slash_lit: "js ''/'' = [0x2F]"
  by (simp add: js_def)

lemma pull_lit: "js ''/pull/'' = 0x2F # js ''pull/''"
  by (simp add: js_def)

lemma matchHere_complete:
  assumes "isSegment g1" "isSegment g2" "isDigits g3"
  shows "matchHere (prUrlText g1 g2 g3 @ post) = Some (g1, g2, g3 @ takeWhile isDigit post)"
proof -
  let ?t2 = "g2 @ js ''/pull/'' @ g3 @ post"
  let ?t1 = "g1 @ js ''/'' @ ?t2"
  have s: "stripPrefix (js ''github.com/'') (prUrlText g1 g2 g3 @ post) = Some ?t1"
    by (simp add: stripPrefix_Some_iff prUrlText_def)
  have a1: "takeWhile notSlash ?t1 = g1" "dropWhile notSlash ?t1 = js ''/'' @ ?t2"
    using assms(1) by (simp_all add: takeWhile_run dropWhile_run isSegment_def slash_lit notSlash_def)
  have a2: "takeWhile notSlash ?t2 = g2" "dropWhile notSlash ?t2 = js ''/pull/'' @ g3 @ post"
    using assms(2) by (simp_all add: takeWhile_run dropWhile_run isSegment_def pull_lit notSlash_def)
  have a3: "takeWhile isDigit (g3 @ post) = g3 @ takeWhile isDigit post"
    using assms(3) by (simp add: isDigits_def list_all_iff)
  show ?thesis
    unfolding matchHere_def s using assms
    by (simp add: a1 a2 a3 stripPrefix_Some_iff[THEN iffD2] isSegment_def isDigits_def Let_def)
qed

lemma matchHere_sound:
  assumes "matchHere s = Some (g1, g2, g3)"
  shows "\<exists>post. s = prUrlText g1 g2 g3 @ post \<and> isSegment g1 \<and> isSegment g2 \<and> isDigits g3"
proof -
  from assms obtain s1 s2 s3 where
    s1: "s = js ''github.com/'' @ s1" and g1: "g1 = takeWhile notSlash s1" "g1 \<noteq> []"
    and s2: "dropWhile notSlash s1 = js ''/'' @ s2" and g2: "g2 = takeWhile notSlash s2" "g2 \<noteq> []"
    and s3: "dropWhile notSlash s2 = js ''/pull/'' @ s3" and g3: "g3 = takeWhile isDigit s3" "g3 \<noteq> []"
    by (auto simp: matchHere_def Let_def stripPrefix_Some_iff split: option.splits if_splits)
  have "s1 = g1 @ js ''/'' @ s2" using g1 s2 takeWhile_dropWhile_id[of notSlash s1] by simp
  moreover have "s2 = g2 @ js ''/pull/'' @ s3" using g2 s3 takeWhile_dropWhile_id[of notSlash s2] by simp
  moreover have "s3 = g3 @ dropWhile isDigit s3" using g3 by simp
  ultimately have "s = prUrlText g1 g2 g3 @ dropWhile isDigit s3"
    using s1 by (simp add: prUrlText_def)
  moreover have "isSegment g1" "isSegment g2" "isDigits g3"
    using g1 g2 g3 by (auto simp: isSegment_def isDigits_def list_all_iff dest: set_takeWhileD)
  ultimately show ?thesis by blast
qed

lemma urlMatch_None_iff: "urlMatch s = None \<longleftrightarrow> (\<forall>pre t. s = pre @ t \<longrightarrow> matchHere t = None)"
proof (induction s)
  case Nil
  then show ?case by simp
next
  case (Cons c cs)
  show ?case
  proof
    assume n: "urlMatch (c # cs) = None"
    then have h: "matchHere (c # cs) = None" and r: "urlMatch cs = None"
      by (auto split: option.splits)
    show "\<forall>pre t. c # cs = pre @ t \<longrightarrow> matchHere t = None"
    proof (intro allI impI)
      fix pre t assume e: "c # cs = pre @ t"
      show "matchHere t = None"
      proof (cases pre)
        case Nil
        then show ?thesis using e h by simp
      next
        case (Cons a pre')
        then have "cs = pre' @ t" using e by simp
        then show ?thesis using r Cons.IH by blast
      qed
    qed
  next
    assume a: "\<forall>pre t. c # cs = pre @ t \<longrightarrow> matchHere t = None"
    then have "matchHere (c # cs) = None" by (metis append_Nil)
    moreover have "\<forall>pre t. cs = pre @ t \<longrightarrow> matchHere t = None"
      using a by (metis append_Cons)
    ultimately show "urlMatch (c # cs) = None" using Cons.IH by simp
  qed
qed

lemma urlMatch_Some_suffix:
  "urlMatch s = Some m \<Longrightarrow> \<exists>pre t. s = pre @ t \<and> matchHere t = Some m"
proof (induction s)
  case Nil
  then show ?case by simp
next
  case (Cons c cs)
  show ?case
  proof (cases "matchHere (c # cs)")
    case None
    then have "urlMatch cs = Some m" using Cons.prems by simp
    then obtain pre t where "cs = pre @ t" "matchHere t = Some m" using Cons.IH by blast
    then have "c # cs = (c # pre) @ t \<and> matchHere t = Some m" by simp
    then show ?thesis by blast
  next
    case (Some a)
    then have "c # cs = [] @ (c # cs) \<and> matchHere (c # cs) = Some m" using Cons.prems by simp
    then show ?thesis by blast
  qed
qed

lemma urlMatch_None_containsPrUrl: "urlMatch s = None \<longleftrightarrow> \<not> containsPrUrl s"
proof
  assume n: "urlMatch s = None"
  show "\<not> containsPrUrl s"
  proof
    assume "containsPrUrl s"
    then obtain pre g1 g2 g3 post where
      e: "s = pre @ prUrlText g1 g2 g3 @ post" and g: "isSegment g1" "isSegment g2" "isDigits g3"
      unfolding containsPrUrl_def by blast
    from n e have "matchHere (prUrlText g1 g2 g3 @ post) = None"
      by (simp add: urlMatch_None_iff)
    then show False using matchHere_complete[OF g] by simp
  qed
next
  assume c: "\<not> containsPrUrl s"
  show "urlMatch s = None"
  proof (rule ccontr)
    assume "urlMatch s \<noteq> None"
    then obtain g1 g2 g3 where "urlMatch s = Some (g1, g2, g3)" by auto
    then obtain pre t where "s = pre @ t" "matchHere t = Some (g1, g2, g3)"
      using urlMatch_Some_suffix by blast
    then show False using matchHere_sound c unfolding containsPrUrl_def by blast
  qed
qed

lemma sign_not_digit: "\<not> isDigit 0x2B" "\<not> isDigit 0x2D"
  by (simp_all add: isDigit_def)

lemma takeWhile_Nil_iff: "takeWhile P xs = [] \<longleftrightarrow> (case xs of [] \<Rightarrow> True | x # _ \<Rightarrow> \<not> P x)"
  by (cases xs) auto

lemma bitLength_le_iff: "bitLength n \<le> k \<longleftrightarrow> n < 2 ^ k"
proof (induction n arbitrary: k rule: bitLength.induct)
  case (1 n)
  show ?case
  proof (cases "n = 0")
    case True
    then show ?thesis by (simp add: bitLength.simps)
  next
    case False
    show ?thesis
    proof (cases k)
      case 0
      then show ?thesis using False by (simp add: bitLength.simps[of n])
    next
      case (Suc k')
      have "bitLength n \<le> Suc k' \<longleftrightarrow> bitLength (n div 2) \<le> k'"
        using False by (simp add: bitLength.simps[of n])
      also have "\<dots> \<longleftrightarrow> n div 2 < 2 ^ k'" using "1.IH"[OF False] .
      also have "\<dots> \<longleftrightarrow> n < 2 ^ Suc k'" by auto
      finally show ?thesis using Suc by simp
    qed
  qed
qed

lemma toDouble_exact: "n \<le> 2 ^ 53 \<Longrightarrow> toDouble n = Num (int n)"
proof (cases "n < 2 ^ 53")
  case True
  then have "bitLength n \<le> 53" by (simp add: bitLength_le_iff)
  then show ?thesis by (simp add: toDouble_def)
next
  case False
  assume "n \<le> 2 ^ 53"
  with False have n: "n = 2 ^ 53" by simp
  have "bitLength n \<le> 54" "\<not> bitLength n \<le> 53"
    unfolding bitLength_le_iff n by simp_all
  then have l: "bitLength n = 54" by simp
  show ?thesis
    unfolding toDouble_def l by (simp add: n Let_def)
qed

lemma toDouble_small: "n \<le> 9007199254740992 \<Longrightarrow> toDouble n = Num (int n)"
  using toDouble_exact[of n] by simp

lemma toDouble_cases: "(\<exists>k. toDouble n = Num (int k)) \<or> toDouble n = Infinity"
proof (cases "bitLength n \<le> 53")
  case True
  then have "toDouble n = Num (int n)" by (simp add: toDouble_def)
  then show ?thesis by blast
next
  case False
  define v where "v = (if 2 ^ (bitLength n - 53 - 1) < n mod 2 ^ (bitLength n - 53) \<or>
      (n mod 2 ^ (bitLength n - 53) = 2 ^ (bitLength n - 53 - 1) \<and>
       odd (n div 2 ^ (bitLength n - 53)))
    then n div 2 ^ (bitLength n - 53) + 1 else n div 2 ^ (bitLength n - 53))
    * 2 ^ (bitLength n - 53)"
  have "toDouble n = (if 2 ^ 1024 \<le> v then Infinity else Num (int v))"
    unfolding toDouble_def Let_def v_def by (simp only: False if_False)
  then show ?thesis by (cases "2 ^ 1024 \<le> v") auto
qed

lemma toDouble_overflow:
  assumes "2 ^ 1024 \<le> n"
  shows "toDouble n = Infinity"
proof -
  define len where "len = bitLength n"
  have "\<not> n < 2 ^ 1024" using assms by simp
  then have g: "\<not> len \<le> 1024" unfolding len_def bitLength_le_iff .
  then have l: "\<not> len \<le> 53" by simp
  have "\<not> len \<le> len - 1" using g by simp
  then have low: "2 ^ (len - 1) \<le> n" unfolding len_def bitLength_le_iff by simp
  define shift where "shift = len - 53"
  define q where "q = n div 2 ^ shift"
  define q' where "q' = (if 2 ^ (shift - 1) < n mod 2 ^ shift \<or>
      (n mod 2 ^ shift = 2 ^ (shift - 1) \<and> odd q) then q + 1 else q)"
  have e: "len - 1 = 52 + shift" using g by (simp add: shift_def)
  have p: "(2::nat) ^ (len - 1) = 2 ^ 52 * 2 ^ shift" by (simp only: e power_add)
  have "2 ^ 52 * 2 ^ shift \<le> n" using low unfolding p .
  then have "2 ^ 52 \<le> q" unfolding q_def
    by (metis less_eq_div_iff_mult_less_eq zero_less_numeral zero_less_power)
  then have "2 ^ 52 \<le> q'" by (simp add: q'_def)
  then have "2 ^ 52 * 2 ^ shift \<le> q' * 2 ^ shift" by (rule mult_le_mono1)
  moreover have "(2::nat) ^ 1024 \<le> 2 ^ 52 * 2 ^ shift"
  proof -
    have "1024 \<le> len - 1" using g by simp
    then have "(2::nat) ^ 1024 \<le> 2 ^ (len - 1)" by (rule power_increasing) simp
    then show ?thesis unfolding p .
  qed
  ultimately have "2 ^ 1024 \<le> q' * 2 ^ shift" by (rule order_trans[rotated])
  then show ?thesis
    unfolding toDouble_def Let_def len_def[symmetric] shift_def[symmetric] q_def[symmetric]
      q'_def[symmetric]
    using l by simp
qed

lemma toDouble_not_NaN: "toDouble n \<noteq> NaN" "jsNegate (toDouble n) \<noteq> NaN"
  using toDouble_cases[of n] by (auto simp: jsNegate_def)

lemma toDouble_nonNegative: "nonNegative (toDouble n)"
  using toDouble_cases[of n] by (auto simp: nonNegative_def)

lemma parseInt10_NaN_iff: "parseInt10 s = NaN \<longleftrightarrow> \<not> leadingNumeral s"
proof (cases "dropWhile isWhiteSpace s")
  case Nil
  show ?thesis unfolding parseInt10_def leadingNumeral_def Nil by simp
next
  case (Cons c cs)
  show ?thesis unfolding parseInt10_def leadingNumeral_def Cons
    by (cases cs) (auto simp: Let_def sign_not_digit toDouble_not_NaN)
qed

lemma digit_not_space: "isDigit c \<Longrightarrow> \<not> isWhiteSpace c"
  unfolding isDigit_def isWhiteSpace_def by (auto simp: word_le_nat_alt)

lemma sign_not_space: "\<not> isWhiteSpace 0x2B" "\<not> isWhiteSpace 0x2D"
  by (simp_all add: isWhiteSpace_def)

lemma parseInt10_digits:
  assumes "isDigits z"
  shows "parseInt10 z = toDouble (decimalValue z)"
    and "parseInt10 (0x2B # z) = toDouble (decimalValue z)"
    and "parseInt10 (0x2D # z) = jsNegate (toDouble (decimalValue z))"
proof -
  from assms obtain c cs where z: "z = c # cs" and c: "isDigit c" and a: "list_all isDigit z"
    by (cases z) (auto simp: isDigits_def)
  have d: "dropWhile isWhiteSpace z = z" using z c digit_not_space by simp
  have t: "takeWhile isDigit z = z" using a by (simp add: list_all_iff)
  have s: "c \<noteq> 0x2B" "c \<noteq> 0x2D" using c sign_not_digit by auto
  have n: "z \<noteq> []" using z by simp
  have k: "(case z of [] \<Rightarrow> (1::int) | x # _ \<Rightarrow> if x = 0x2D then - 1 else 1) = 1"
    "(case z of [] \<Rightarrow> z | x # xs \<Rightarrow> if x = 0x2B \<or> x = 0x2D then xs else z) = z"
    using s by (simp_all add: z)
  show "parseInt10 z = toDouble (decimalValue z)"
    unfolding parseInt10_def d Let_def k t using n by simp
  have dp: "dropWhile isWhiteSpace (0x2B # z) = 0x2B # z"
    and dm: "dropWhile isWhiteSpace (0x2D # z) = 0x2D # z"
    using sign_not_space by simp_all
  show "parseInt10 (0x2B # z) = toDouble (decimalValue z)"
    unfolding parseInt10_def dp by (simp add: Let_def t n)
  show "parseInt10 (0x2D # z) = jsNegate (toDouble (decimalValue z))"
    unfolding parseInt10_def dm by (simp add: Let_def t n)
qed

lemma matchHere_head: "c \<noteq> 0x67 \<Longrightarrow> matchHere (c # t) = None"
  by (simp add: matchHere_def js_def)

lemma urlMatch_skip: "0x67 \<notin> set pre \<Longrightarrow> urlMatch (pre @ t) = urlMatch t"
  by (induction pre) (auto simp: matchHere_head)

lemma prUrlText_Cons: "prUrlText g1 g2 g3 @ post = 0x67 # js ''ithub.com/'' @ g1 @ js ''/'' @ g2 @ js ''/pull/'' @ g3 @ post"
  by (simp add: prUrlText_def js_def)

lemma urlMatch_prUrlText:
  assumes "isSegment g1" "isSegment g2" "isDigits g3"
  shows "urlMatch (prUrlText g1 g2 g3 @ post) = Some (g1, g2, g3 @ takeWhile isDigit post)"
proof -
  obtain c cs where e: "prUrlText g1 g2 g3 @ post = c # cs" using prUrlText_Cons by blast
  have "urlMatch (c # cs) = Some (g1, g2, g3 @ takeWhile isDigit post)"
    using matchHere_complete[OF assms, of post] e by simp
  then show ?thesis using e by simp
qed

lemma urlMatch_Some_shape:
  assumes "urlMatch s = Some (g1, g2, g3)"
  shows "isSegment g1 \<and> isSegment g2 \<and> isDigits g3"
  using urlMatch_Some_suffix[OF assms] matchHere_sound by blast

lemma urlMatch_no_g: "0x67 \<notin> set s \<Longrightarrow> urlMatch s = None"
  using urlMatch_skip[of s "[]"] by (simp add: matchHere_def js_def)

lemma digits_no_g: "list_all isDigit z \<Longrightarrow> 0x67 \<notin> set z"
proof
  assume "list_all isDigit z" "0x67 \<in> set z"
  then have "isDigit 0x67" by (simp add: list_all_iff)
  then show False by (simp add: isDigit_def)
qed

lemma parse_bare_cases:
  assumes "urlMatch pr = None" "parseInt10 pr \<noteq> NaN"
  shows "\<exists>o' r'. parsePrReference pr repoArg
           = Inr \<lparr>owner = o', repo = r', number = parseInt10 pr\<rparr>"
  using assms
  by (cases "parseInt10 pr") (auto simp: parsePrReference_def split: option.splits list.splits)

lemma parseInt10_sign:
  "parseInt10 s = NaN \<or> nonNegative (parseInt10 s)
     \<or> (\<exists>cs. dropWhile isWhiteSpace s = 0x2D # cs)"
proof (cases "dropWhile isWhiteSpace s")
  case Nil
  show ?thesis unfolding parseInt10_def Nil by simp
next
  case (Cons c cs)
  show ?thesis
  proof (cases "c = 0x2D")
    case True
    then show ?thesis using Cons by simp
  next
    case False
    then show ?thesis unfolding parseInt10_def Cons
      by (simp add: Let_def toDouble_nonNegative)
  qed
qed

text \<open>
  The resolver throws exactly on the references that contain no text of the URL shape and
  do not begin, after white space and an optional sign, with a digit.
\<close>

lemma parsePrReference_throws_iff:
  "(\<exists>e. parsePrReference pr repoArg = Inl e) \<longleftrightarrow> \<not> containsPrUrl pr \<and> \<not> leadingNumeral pr"
proof (cases "urlMatch pr")
  case None
  show ?thesis
  proof (cases "parseInt10 pr = NaN")
    case True
    then show ?thesis
      using None urlMatch_None_containsPrUrl[of pr] parseInt10_NaN_iff[of pr]
      by (simp add: parsePrReference_def)
  next
    case False
    then show ?thesis
      using None parse_bare_cases[OF None False, of repoArg] parseInt10_NaN_iff[of pr] by auto
  qed
next
  case (Some m)
  then show ?thesis
    using urlMatch_None_containsPrUrl[of pr] by (cases m) (simp add: parsePrReference_def)
qed

lemma decimalValue_zeros:
  "foldl (\<lambda>acc c. 10 * acc + digitValue c) a (replicate n 0x30) = a * 10 ^ n"
  by (induction n arbitrary: a) (simp_all add: digitValue_def)

lemma ten_pow_309: "(2::nat) ^ 1024 \<le> 10 ^ 309"
  by simp

lemmas resolver_eval = js_def matchHere_def parseInt10_def isWhiteSpace_def isDigit_def
  notSlash_def decimalValue_def digitValue_def isSegment_def isDigits_def prUrlText_def
  parsePrReference_def invalidReference_def leadingNumeral_def toDouble_small jsNegate_def

text \<open>
  Claim C9, as amended. For a well-formed URL \<open>https://github.com/O/R/pull/N\<close>, where
  \<open>O\<close> and \<open>R\<close> are path segments (not empty, no slash) and \<open>N\<close> is a non-empty digit
  string, the resolver returns owner \<open>O\<close>, repository \<open>R\<close> and, as number, the double
  nearest to \<open>N\<close>: \<open>N\<close> itself whenever \<open>N\<close> is at most \<open>2^53\<close>. The same holds behind
  any prefix without the letter \<open>g\<close> and before any suffix that does not start with a
  digit. The URL shape has precedence: whenever the reference contains such a text, the
  result is the one of the leftmost URL match, whatever the integer parse of the reference
  and the \<open>repo\<close> argument are.
\<close>

theorem url_reference_resolved:
  "(isSegment ow \<and> isSegment rp \<and> isDigits ds \<and> 0x67 \<notin> set pre \<and>
    (post = [] \<or> \<not> isDigit (hd post)) \<longrightarrow>
      parsePrReference (pre @ prUrlText ow rp ds @ post) repoArg
        = Inr \<lparr>owner = ow, repo = rp, number = toDouble (decimalValue ds)\<rparr> \<and>
      (decimalValue ds \<le> 2 ^ 53 \<longrightarrow>
         parsePrReference (pre @ prUrlText ow rp ds @ post) repoArg
           = Inr \<lparr>owner = ow, repo = rp, number = Num (int (decimalValue ds))\<rparr>))
   \<and> (containsPrUrl pr \<longrightarrow>
        (\<exists>g1 g2 g3. urlMatch pr = Some (g1, g2, g3) \<and>
           isSegment g1 \<and> isSegment g2 \<and> isDigits g3 \<and>
           parsePrReference pr repoArg
             = Inr \<lparr>owner = g1, repo = g2, number = toDouble (decimalValue g3)\<rparr>))"
proof (intro conjI impI)
  assume a: "isSegment ow \<and> isSegment rp \<and> isDigits ds \<and> 0x67 \<notin> set pre \<and>
    (post = [] \<or> \<not> isDigit (hd post))"
  then have t: "takeWhile isDigit post = []" by (cases post) auto
  have "urlMatch (pre @ prUrlText ow rp ds @ post) = Some (ow, rp, ds)"
    using a t by (simp add: urlMatch_skip urlMatch_prUrlText)
  then show r: "parsePrReference (pre @ prUrlText ow rp ds @ post) repoArg
        = Inr \<lparr>owner = ow, repo = rp, number = toDouble (decimalValue ds)\<rparr>"
    using a by (simp add: parsePrReference_def parseInt10_digits)
  assume "decimalValue ds \<le> 2 ^ 53"
  then show "parsePrReference (pre @ prUrlText ow rp ds @ post) repoArg
           = Inr \<lparr>owner = ow, repo = rp, number = Num (int (decimalValue ds))\<rparr>"
    using r by (simp add: toDouble_exact)
next
  assume "containsPrUrl pr"
  then obtain g1 g2 g3 where m: "urlMatch pr = Some (g1, g2, g3)"
    using urlMatch_None_containsPrUrl[of pr] by auto
  then have s: "isSegment g1 \<and> isSegment g2 \<and> isDigits g3" by (rule urlMatch_Some_shape)
  then have "parsePrReference pr repoArg
      = Inr \<lparr>owner = g1, repo = g2, number = toDouble (decimalValue g3)\<rparr>"
    using m by (simp add: parsePrReference_def parseInt10_digits)
  then show "\<exists>g1 g2 g3. urlMatch pr = Some (g1, g2, g3) \<and>
           isSegment g1 \<and> isSegment g2 \<and> isDigits g3 \<and>
           parsePrReference pr repoArg
             = Inr \<lparr>owner = g1, repo = g2, number = toDouble (decimalValue g3)\<rparr>"
    using m s by blast
qed

theorem url_reference_resolved_witness:
  "isSegment (js ''octo'') \<and> isSegment (js ''kit'') \<and> isDigits (js ''123'') \<and>
   0x67 \<notin> set (js ''https://'') \<and> decimalValue (js ''123'') \<le> 2 ^ 53 \<and>
   parsePrReference (js ''https://github.com/octo/kit/pull/123'') None
     = Inr \<lparr>owner = js ''octo'', repo = js ''kit'', number = Num 123\<rparr> \<and>
   containsPrUrl (js ''12 github.com/o/r/pull/5'') \<and>
   parseInt10 (js ''12 github.com/o/r/pull/5'') = Num 12 \<and>
   parsePrReference (js ''12 github.com/o/r/pull/5'') (Some (js ''a/b''))
     = Inr \<lparr>owner = js ''o'', repo = js ''r'', number = Num 5\<rparr>"
proof -
  have c: "containsPrUrl (js ''12 github.com/o/r/pull/5'')"
    using urlMatch_None_containsPrUrl[of "js ''12 github.com/o/r/pull/5''"]
    by (simp add: resolver_eval)
  have m: "urlMatch (js ''12 github.com/o/r/pull/5'') = Some (js ''o'', js ''r'', js ''5'')"
    by (simp add: resolver_eval)
  have h: "isSegment (js ''octo'') \<and> isSegment (js ''kit'') \<and> isDigits (js ''123'') \<and>
    0x67 \<notin> set (js ''https://'') \<and> ([] = [] \<or> \<not> isDigit (hd []))"
    "decimalValue (js ''123'') \<le> 2 ^ 53"
    by (simp_all add: resolver_eval)
  have u: "js ''https://'' @ prUrlText (js ''octo'') (js ''kit'') (js ''123'') @ []
             = js ''https://github.com/octo/kit/pull/123''"
    by (simp add: prUrlText_def js_def)
  have v: "int (decimalValue (js ''123'')) = 123" "toDouble (decimalValue (js ''5'')) = Num 5"
    by (simp_all add: resolver_eval)
  from url_reference_resolved[where ow = "js ''octo''" and rp = "js ''kit''" and ds = "js ''123''"
          and pre = "js ''https://''" and post = "[]" and repoArg = None and pr = "[]"] h
  have 1: "parsePrReference (js ''https://github.com/octo/kit/pull/123'') None
     = Inr \<lparr>owner = js ''octo'', repo = js ''kit'', number = Num 123\<rparr>"
    unfolding u v by blast
  from url_reference_resolved[where pr = "js ''12 github.com/o/r/pull/5''"
          and repoArg = "Some (js ''a/b'')" and ow = "[]" and rp = "[]" and ds = "[]"
          and pre = "[]" and post = "[]"] c m
  have 2: "parsePrReference (js ''12 github.com/o/r/pull/5'') (Some (js ''a/b''))
     = Inr \<lparr>owner = js ''o'', repo = js ''r'', number = Num 5\<rparr>"
    using v(2) by auto
  have 3: "parseInt10 (js ''12 github.com/o/r/pull/5'') = Num 12"
    by (simp add: resolver_eval)
  show ?thesis using h c 1 2 3 by simp
qed

lemma bitLength_54: "bitLength 9007199254740993 = 54"
proof -
  have "bitLength 9007199254740993 \<le> 54" "\<not> bitLength 9007199254740993 \<le> 53"
    unfolding bitLength_le_iff by simp_all
  then show ?thesis by simp
qed

text \<open>
  As the claim is stated it does not hold: the number is a double, and the PR number
  \<open>9007199254740993\<close>, which is \<open>2^53 + 1\<close>, resolves to \<open>9007199254740992\<close>.
\<close>

theorem url_number_rounded_counterexample:
  "parsePrReference (js ''https://github.com/o/r/pull/9007199254740993'') None
     = Inr \<lparr>owner = js ''o'', repo = js ''r'', number = Num 9007199254740992\<rparr>"
proof -
  have m: "urlMatch (js ''https://github.com/o/r/pull/9007199254740993'')
             = Some (js ''o'', js ''r'', js ''9007199254740993'')"
    by (simp add: js_def matchHere_def isDigit_def notSlash_def)
  have d: "isDigits (js ''9007199254740993'')"
    by (simp add: js_def isDigits_def isDigit_def)
  have v: "decimalValue (js ''9007199254740993'') = 9007199254740993"
    by (simp add: js_def decimalValue_def digitValue_def)
  have t: "toDouble 9007199254740993 = Num 9007199254740992"
    unfolding toDouble_def bitLength_54 by (simp add: Let_def)
  show ?thesis
    by (simp add: parsePrReference_def m parseInt10_digits(1)[OF d] v t)
qed

text \<open>
  Claim C2, as amended. The resolver succeeds on every reference that contains a text
  \<open>github.com/O/R/pull/N\<close> (the host is fixed and the match is not anchored) and on
  every base-10 integer, that is a non-empty digit string with or without a sign before
  it; the number it returns is the double nearest to the integer, which is the integer
  itself up to \<open>2^53\<close>. It fails with the error \<open>Invalid PR reference\<close> on every
  reference that contains no such text and does not begin, after white space and an
  optional sign, with a decimal digit.
\<close>

theorem resolver_accepts_and_rejects:
  "(containsPrUrl pr \<longrightarrow> (\<exists>p. parsePrReference pr repoArg = Inr p))
   \<and> (isDigits ds \<longrightarrow>
        (\<exists>p. parsePrReference ds repoArg = Inr p \<and> number p = toDouble (decimalValue ds)) \<and>
        (\<exists>p. parsePrReference (0x2B # ds) repoArg = Inr p \<and>
              number p = toDouble (decimalValue ds)) \<and>
        (\<exists>p. parsePrReference (0x2D # ds) repoArg = Inr p \<and>
              number p = jsNegate (toDouble (decimalValue ds))) \<and>
        (decimalValue ds \<le> 2 ^ 53 \<longrightarrow> toDouble (decimalValue ds) = Num (int (decimalValue ds))))
   \<and> (\<not> containsPrUrl pr \<and> \<not> leadingNumeral pr \<longrightarrow>
        parsePrReference pr repoArg = Inl (invalidReference pr))"
proof (intro conjI impI)
  assume "containsPrUrl pr"
  then obtain m where "urlMatch pr = Some m" using urlMatch_None_containsPrUrl[of pr] by auto
  then show "\<exists>p. parsePrReference pr repoArg = Inr p"
    by (cases m) (simp add: parsePrReference_def)
next
  assume d: "isDigits ds"
  then have g: "0x67 \<notin> set ds" by (simp add: isDigits_def digits_no_g)
  have g': "0x67 \<notin> set (0x2B # ds)" "0x67 \<notin> set (0x2D # ds)" using g by simp_all
  have u: "urlMatch ds = None" "urlMatch (0x2B # ds) = None" "urlMatch (0x2D # ds) = None"
    by (rule urlMatch_no_g[OF g] urlMatch_no_g[OF g'(1)] urlMatch_no_g[OF g'(2)])+
  note p = parseInt10_digits[OF d]
  have n: "parseInt10 ds \<noteq> NaN" "parseInt10 (0x2B # ds) \<noteq> NaN" "parseInt10 (0x2D # ds) \<noteq> NaN"
    unfolding p by (rule toDouble_not_NaN)+
  show "\<exists>p. parsePrReference ds repoArg = Inr p \<and> number p = toDouble (decimalValue ds)"
    using parse_bare_cases[OF u(1) n(1), of repoArg] p(1) by auto
  show "\<exists>p. parsePrReference (0x2B # ds) repoArg = Inr p \<and>
              number p = toDouble (decimalValue ds)"
    using parse_bare_cases[OF u(2) n(2), of repoArg] p(2) by auto
  show "\<exists>p. parsePrReference (0x2D # ds) repoArg = Inr p \<and>
              number p = jsNegate (toDouble (decimalValue ds))"
    using parse_bare_cases[OF u(3) n(3), of repoArg] p(3) by auto
  show "toDouble (decimalValue ds) = Num (int (decimalValue ds))" if "decimalValue ds \<le> 2 ^ 53"
    using that by (rule toDouble_exact)
next
  assume "\<not> containsPrUrl pr \<and> \<not> leadingNumeral pr"
  then show "parsePrReference pr repoArg = Inl (invalidReference pr)"
    by (simp add: parsePrReference_def urlMatch_None_containsPrUrl[symmetric]
        parseInt10_NaN_iff[symmetric])
qed

theorem resolver_accepts_and_rejects_witness:
  "containsPrUrl (js ''see github.com/o/r/pull/5/files'') \<and>
   parsePrReference (js ''see github.com/o/r/pull/5/files'') None
     = Inr \<lparr>owner = js ''o'', repo = js ''r'', number = Num 5\<rparr> \<and>
   isDigits (js ''42'') \<and> decimalValue (js ''42'') \<le> 2 ^ 53 \<and>
   (\<exists>p. parsePrReference (js ''42'') None = Inr p \<and> number p = Num 42) \<and>
   (\<exists>p. parsePrReference (js ''+42'') None = Inr p \<and> number p = Num 42) \<and>
   (\<exists>p. parsePrReference (js ''-42'') None = Inr p \<and> number p = Num (- 42)) \<and>
   \<not> containsPrUrl (js ''abc'') \<and> \<not> leadingNumeral (js ''abc'') \<and>
   parsePrReference (js ''abc'') None = Inl (invalidReference (js ''abc''))"
proof -
  have c: "containsPrUrl (js ''see github.com/o/r/pull/5/files'')"
    using urlMatch_None_containsPrUrl[of "js ''see github.com/o/r/pull/5/files''"]
    by (simp add: resolver_eval)
  have n: "\<not> containsPrUrl (js ''abc'')"
    using urlMatch_None_containsPrUrl[of "js ''abc''"] by (simp add: resolver_eval)
  have l: "\<not> leadingNumeral (js ''abc'')" "isDigits (js ''42'')"
    "decimalValue (js ''42'') \<le> 2 ^ 53"
    by (simp_all add: resolver_eval)
  have v: "decimalValue (js ''42'') = 42" "0x2B # js ''42'' = js ''+42''"
    "0x2D # js ''42'' = js ''-42''"
    by (simp_all add: js_def decimalValue_def digitValue_def)
  have a: "parsePrReference (js ''see github.com/o/r/pull/5/files'') None
     = Inr \<lparr>owner = js ''o'', repo = js ''r'', number = Num 5\<rparr>"
    by (simp add: resolver_eval)
  from resolver_accepts_and_rejects[of "js ''see github.com/o/r/pull/5/files''" None "js ''42''"]
    l(2,3)
  have i: "(\<exists>p. parsePrReference (js ''42'') None = Inr p \<and> number p = Num 42)"
    "(\<exists>p. parsePrReference (js ''+42'') None = Inr p \<and> number p = Num 42)"
    "(\<exists>p. parsePrReference (js ''-42'') None = Inr p \<and> number p = Num (- 42))"
    unfolding v by (auto simp: jsNegate_def)
  from resolver_accepts_and_rejects[of "js ''abc''" None "[]"] n l(1)
  have r: "parsePrReference (js ''abc'') None = Inl (invalidReference (js ''abc''))"
    by blast
  show ?thesis using c n l a i r by simp
qed

text \<open>
  As the claim is stated it does not hold: \<open>12abc\<close> resolves to the number 12, and a
  pull-request URL of another host is rejected.
\<close>

theorem resolver_lenient_counterexample:
  "parsePrReference (js ''12abc'') None = Inr \<lparr>owner = [], repo = [], number = Num 12\<rparr> \<and>
   parsePrReference (js ''https://gitlab.com/o/r/pull/5'') None
     = Inl (invalidReference (js ''https://gitlab.com/o/r/pull/5''))"
  by (simp add: resolver_eval)

text \<open>
  Claim C3, as amended. When the resolver succeeds, \<open>number\<close> is never \<open>NaN\<close>: it is
  a double that holds an integer or, for a numeral beyond the range of the doubles (some
  309 digits), an infinity. It is not negative unless the reference is a bare numeral
  that begins, after white space, with a minus sign. There is no check that the number is
  positive.
\<close>

theorem resolved_number_range:
  assumes "parsePrReference pr repoArg = Inr p"
  shows "number p \<noteq> NaN \<and>
         (nonNegative (number p)
          \<or> (urlMatch pr = None \<and> (\<exists>cs. dropWhile isWhiteSpace pr = 0x2D # cs)))"
proof (cases "urlMatch pr")
  case None
  have n: "parseInt10 pr \<noteq> NaN"
    using assms None by (auto simp: parsePrReference_def)
  then have "number p = parseInt10 pr"
    using parse_bare_cases[OF None n, of repoArg] assms by auto
  then show ?thesis using parseInt10_sign[of pr] n None by auto
next
  case (Some m)
  then obtain g1 g2 g3 where m: "urlMatch pr = Some (g1, g2, g3)" by (cases m) auto
  then have "isDigits g3" using urlMatch_Some_shape by blast
  then have "number p = toDouble (decimalValue g3)"
    using assms m by (auto simp: parsePrReference_def parseInt10_digits)
  then show ?thesis by (simp add: toDouble_not_NaN toDouble_nonNegative)
qed

theorem resolved_number_range_witness:
  "parsePrReference (js ''-5'') None = Inr \<lparr>owner = [], repo = [], number = Num (- 5)\<rparr> \<and>
   urlMatch (js ''-5'') = None \<and> dropWhile isWhiteSpace (js ''-5'') = 0x2D # js ''5'' \<and>
   parsePrReference (0x31 # replicate 309 0x30) None
     = Inr \<lparr>owner = [], repo = [], number = Infinity\<rparr> \<and>
   nonNegative Infinity"
proof -
  have p: "parsePrReference (js ''-5'') None = Inr \<lparr>owner = [], repo = [], number = Num (- 5)\<rparr>"
    by (simp add: resolver_eval)
  let ?big = "0x31 # replicate 309 (0x30 :: code_unit)"
  have d: "isDigits ?big" by (simp add: isDigits_def isDigit_def list_all_iff)
  have "decimalValue ?big = 10 ^ 309"
    unfolding decimalValue_def foldl_Cons decimalValue_zeros by (simp add: digitValue_def)
  then have i: "parseInt10 ?big = Infinity"
    using parseInt10_digits(1)[OF d] toDouble_overflow[OF ten_pow_309] by simp
  have u: "urlMatch ?big = None"
    using d by (intro urlMatch_no_g digits_no_g) (simp add: isDigits_def)
  have q: "parsePrReference ?big None = Inr \<lparr>owner = [], repo = [], number = Infinity\<rparr>"
    unfolding parsePrReference_def u i by simp
  have w: "dropWhile isWhiteSpace ?big = ?big" by (simp add: isWhiteSpace_def)
  from resolved_number_range[OF q, unfolded w] have "nonNegative Infinity"
    by simp
  then show ?thesis using resolved_number_range[OF p] p q by (simp add: resolver_eval)
qed

text \<open>As the claim is stated it does not hold: \<open>0\<close> and \<open>-5\<close> are resolved, not rejected.\<close>

theorem resolver_nonpositive_counterexample:
  "parsePrReference (js ''0'') None = Inr \<lparr>owner = [], repo = [], number = Num 0\<rparr> \<and>
   parsePrReference (js ''-5'') None = Inr \<lparr>owner = [], repo = [], number = Num (- 5)\<rparr>"
  by (simp add: resolver_eval)

section \<open>Properties of the snapshot tool\<close>

lemma sizeCategory_names:
  "js ''small'' \<noteq> js ''medium''" "js ''small'' \<noteq> js ''large''" "js ''small'' \<noteq> js ''very large''"
  "js ''medium'' \<noteq> js ''large''" "js ''medium'' \<noteq> js ''very large''" "js ''large'' \<noteq> js ''very large''"
  by (simp_all add: js_def)

lemma prCatch_is_error: "\<exists>m. prCatch parsed e = PrError m"
  by (cases e) (simp_all add: prCatch_def)

lemma prTryBlock_stats:
  assumes "prTryBlock w parsed repoFlag = Inr out"
  shows "st_totalLinesChanged (out_stats out) = st_additions (out_stats out) + st_deletions (out_stats out)"
    and "st_sizeCategory (out_stats out) = sizeCategory (st_totalLinesChanged (out_stats out))"
  using assms by (auto simp: prTryBlock_def Let_def split: sum.splits)

lemma execute_pr_snapshot:
  assumes "execute_pr w pr repoArg = Returned (PrSnapshot out)"
  shows "\<exists>parsed repoFlag. prTryBlock w parsed repoFlag = Inr out"
proof -
  from assms obtain parsed where p: "parsePrReference pr repoArg = Inr parsed"
    by (cases "parsePrReference pr repoArg") (auto simp: execute_pr_def)
  define repoFlag where "repoFlag = (if owner parsed \<noteq> [] \<and> repo parsed \<noteq> []
                          then js ''-R '' @ owner parsed @ js ''/'' @ repo parsed else [])"
  have e: "execute_pr w pr repoArg = (case prTryBlock w parsed repoFlag of
                Inr output \<Rightarrow> Returned (PrSnapshot output)
              | Inl e \<Rightarrow> Returned (prCatch parsed e))"
    by (simp add: execute_pr_def p repoFlag_def Let_def)
  show ?thesis
  proof (cases "prTryBlock w parsed repoFlag")
    case (Inl x)
    then show ?thesis using e assms prCatch_is_error[of parsed x] by auto
  next
    case (Inr y)
    then show ?thesis using e assms by auto
  qed
qed

text \<open>
  Claim C7. The size category is \<open>small\<close> exactly for a total of at most 100,
  \<open>medium\<close> exactly from 101 to 500, \<open>large\<close> exactly from 501 to 1000 and
  \<open>very large\<close> exactly from 1001 on; and in every snapshot that the tool returns, the
  total is additions plus deletions and the category is the one of that total.
\<close>

theorem size_category_boundaries:
  "(sizeCategory t = js ''small'' \<longleftrightarrow> t \<le> 100) \<and>
   (sizeCategory t = js ''medium'' \<longleftrightarrow> 101 \<le> t \<and> t \<le> 500) \<and>
   (sizeCategory t = js ''large'' \<longleftrightarrow> 501 \<le> t \<and> t \<le> 1000) \<and>
   (sizeCategory t = js ''very large'' \<longleftrightarrow> 1001 \<le> t) \<and>
   (execute_pr w pr repoArg = Returned (PrSnapshot out) \<longrightarrow>
      st_totalLinesChanged (out_stats out) = st_additions (out_stats out) + st_deletions (out_stats out) \<and>
      st_sizeCategory (out_stats out) = sizeCategory (st_totalLinesChanged (out_stats out)))"
proof -
  have a: "\<And>x y. (x::jsstring) \<noteq> y \<Longrightarrow> y \<noteq> x" by simp
  have 1: "(sizeCategory t = js ''small'' \<longleftrightarrow> t \<le> 100)"
    using sizeCategory_names by (simp add: sizeCategory_def)
  have 2: "(sizeCategory t = js ''medium'' \<longleftrightarrow> 101 \<le> t \<and> t \<le> 500)"
    using sizeCategory_names sizeCategory_names[THEN a] by (auto simp add: sizeCategory_def)
  have 3: "(sizeCategory t = js ''large'' \<longleftrightarrow> 501 \<le> t \<and> t \<le> 1000)"
    using sizeCategory_names sizeCategory_names[THEN a] by (auto simp add: sizeCategory_def)
  have 4: "(sizeCategory t = js ''very large'' \<longleftrightarrow> 1001 \<le> t)"
    using sizeCategory_names sizeCategory_names[THEN a] by (auto simp add: sizeCategory_def)
  have 5: "execute_pr w pr repoArg = Returned (PrSnapshot out) \<longrightarrow>
      st_totalLinesChanged (out_stats out) = st_additions (out_stats out) + st_deletions (out_stats out) \<and>
      st_sizeCategory (out_stats out) = sizeCategory (st_totalLinesChanged (out_stats out))"
    using execute_pr_snapshot prTryBlock_stats by blast
  show ?thesis using 1 2 3 4 5 by blast
qed

theorem size_category_boundaries_witness:
  "sizeCategory 100 = js ''small'' \<and> sizeCategory 101 = js ''medium'' \<and>
   sizeCategory 500 = js ''medium'' \<and> sizeCategory 501 = js ''large'' \<and>
   sizeCategory 1000 = js ''large'' \<and> sizeCategory 1001 = js ''very large'' \<and>
   (\<exists>out. execute_pr samplePrWorld (js ''7'') None = Returned (PrSnapshot out) \<and>
      st_totalLinesChanged (out_stats out) = 101 \<and>
      st_sizeCategory (out_stats out) = js ''medium'')"
proof -
  obtain out where e: "execute_pr samplePrWorld (js ''7'') None = Returned (PrSnapshot out)"
    and a: "st_additions (out_stats out) = 60" "st_deletions (out_stats out) = 41"
    by (simp add: execute_pr_def prTryBlock_def samplePrWorld_def resolver_eval)
  have "st_totalLinesChanged (out_stats out) = 101 \<and> st_sizeCategory (out_stats out) = js ''medium''"
    using size_category_boundaries[of 101 samplePrWorld "js ''7''" None out] e a by simp
  then show ?thesis
    using e size_category_boundaries[of 100 samplePrWorld "js ''7''" None out]
      size_category_boundaries[of 101 samplePrWorld "js ''7''" None out]
      size_category_boundaries[of 500 samplePrWorld "js ''7''" None out]
      size_category_boundaries[of 501 samplePrWorld "js ''7''" None out]
      size_category_boundaries[of 1000 samplePrWorld "js ''7''" None out]
      size_category_boundaries[of 1001 samplePrWorld "js ''7''" None out]
    by simp
qed

section \<open>Properties of the comment tool\<close>

lemma toReviewComment_reply_nonzero: "rc_inReplyToId (toReviewComment c) \<noteq> Some 0"
  by (simp add: toReviewComment_def split: option.splits)

lemma isTopLevel_fetched:
  "c \<in> set (map toReviewComment raw) \<Longrightarrow> isTopLevel c \<longleftrightarrow> rc_inReplyToId c = None"
  using toReviewComment_reply_nonzero by (auto simp: isTopLevel_def split: option.splits)

lemma topLevel_fetched:
  "filter isTopLevel (map toReviewComment raw)
     = filter (\<lambda>c. rc_inReplyToId c = None) (map toReviewComment raw)"
  by (rule filter_cong) (auto simp: isTopLevel_fetched simp del: set_map)

lemma commentsCatch_is_error: "\<exists>m. commentsCatch e = CommentsError m"
  by (cases e) (simp_all add: commentsCatch_def)

lemma commentsTryBlock_output:
  assumes "commentsTryBlock w repoContext parsed = Inr out"
  shows "\<exists>reviewCommentsRaw reviewsRaw.
           cw_review_comments w repoContext (number parsed) = Inr reviewCommentsRaw \<and>
           cw_reviews w repoContext (number parsed) = Inr reviewsRaw \<and>
           co_reviewComments out = map toReviewComment reviewCommentsRaw \<and>
           co_threads out = assembleThreads (co_reviewComments out) \<and>
           co_reviews out = submittedReviews reviewsRaw \<and>
           totalReviews (co_stats out) = length (co_reviews out)"
proof -
  from assms obtain a where a: "cw_review_comments w repoContext (number parsed) = Inr a"
    by (cases "cw_review_comments w repoContext (number parsed)") (auto simp: commentsTryBlock_def)
  from assms a obtain b where b: "cw_issue_comments w repoContext (number parsed) = Inr b"
    by (cases "cw_issue_comments w repoContext (number parsed)") (auto simp: commentsTryBlock_def)
  from assms a b obtain c where c: "cw_reviews w repoContext (number parsed) = Inr c"
    by (cases "cw_reviews w repoContext (number parsed)") (auto simp: commentsTryBlock_def)
  from assms a b c obtain m where
    m: "groupByFile (cw_typeError w) Map.empty (map toReviewComment a) = Inr m"
    by (cases "groupByFile (cw_typeError w) Map.empty (map toReviewComment a)")
      (auto simp: commentsTryBlock_def Let_def)
  from assms have "co_reviewComments out = map toReviewComment a"
    "co_threads out = assembleThreads (co_reviewComments out)"
    "co_reviews out = submittedReviews c"
    "totalReviews (co_stats out) = length (co_reviews out)"
    by (auto simp: commentsTryBlock_def a b c m Let_def)
  then show ?thesis using a c by blast
qed

lemma execute_comments_output:
  assumes "execute_comments w pr repoArg = Returned (CommentsOutput out)"
  shows "\<exists>repoContext parsed. parsePrReference pr repoArg = Inr parsed \<and>
           commentsTryBlock w repoContext parsed = Inr out"
proof -
  from assms obtain parsed where p: "parsePrReference pr repoArg = Inr parsed"
    by (cases "parsePrReference pr repoArg") (auto simp: execute_comments_def)
  define ctx where "ctx = (if owner parsed \<noteq> [] \<and> repo parsed \<noteq> []
                 then Inr (owner parsed @ js ''/'' @ repo parsed)
                 else (case cw_repo_view w of
                         Inl e \<Rightarrow> Inl (CommentsError noRepository)
                       | Inr repoResult \<Rightarrow> Inr (trim repoResult)))"
  have e: "execute_comments w pr repoArg =
          (case ctx of
             Inl r \<Rightarrow> Returned r
           | Inr repoContext \<Rightarrow>
               (case commentsTryBlock w repoContext parsed of
                  Inr output \<Rightarrow> Returned (CommentsOutput output)
                | Inl e \<Rightarrow> Returned (commentsCatch e)))"
    by (simp add: execute_comments_def p ctx_def)
  have "\<And>r. ctx = Inl r \<Longrightarrow> r = CommentsError noRepository"
    by (auto simp: ctx_def split: if_splits sum.splits)
  then obtain repoContext where r: "ctx = Inr repoContext"
    using e assms by (cases ctx) auto
  show ?thesis
  proof (cases "commentsTryBlock w repoContext parsed")
    case (Inl x)
    then show ?thesis using e r assms commentsCatch_is_error[of x] by auto
  next
    case (Inr y)
    then show ?thesis using e r assms p by auto
  qed
qed

lemma groupByFile_returns:
  "\<forall>c \<in> set cs. rc_path c \<notin> set objectPrototypeKeys \<Longrightarrow> \<exists>m'. groupByFile e m cs = Inr m'"
  by (induction cs arbitrary: m) auto

lemma execute_comments_returns:
  assumes p: "parsePrReference pr repoArg = Inr parsed"
    and o: "owner parsed \<noteq> []" "repo parsed \<noteq> []"
    and a: "cw_review_comments w (owner parsed @ js ''/'' @ repo parsed) (number parsed) = Inr a"
    and b: "cw_issue_comments w (owner parsed @ js ''/'' @ repo parsed) (number parsed) = Inr b"
    and c: "cw_reviews w (owner parsed @ js ''/'' @ repo parsed) (number parsed) = Inr c"
    and k: "\<forall>x \<in> set a. raw_rc_path x \<notin> set objectPrototypeKeys"
  shows "\<exists>out. execute_comments w pr repoArg = Returned (CommentsOutput out)"
proof -
  have "\<forall>x \<in> set (map toReviewComment a). rc_path x \<notin> set objectPrototypeKeys"
    using k by (simp add: toReviewComment_def)
  then obtain m where
    m: "groupByFile (cw_typeError w) Map.empty (map toReviewComment a) = Inr m"
    using groupByFile_returns by blast
  show ?thesis
    by (simp add: execute_comments_def p o commentsTryBlock_def a b c m Let_def)
qed

text \<open>
  Claim C6. For the review comments as the tool has fetched and reshaped them, the thread
  assembler makes one thread for each comment without \<open>inReplyToId\<close>, in input order;
  the replies of a thread are the comments whose \<open>inReplyToId\<close> is the id of its parent,
  in input order; and a comment that refers to an id that no comment has is in no reply
  list and is the parent of no thread.
\<close>

theorem threads_of_fetched_comments:
  assumes "reviewComments = map toReviewComment raw"
  shows "map parent (assembleThreads reviewComments)
           = filter (\<lambda>c. rc_inReplyToId c = None) reviewComments
       \<and> map replies (assembleThreads reviewComments)
           = map (\<lambda>p. filter (\<lambda>c. rc_inReplyToId c = Some (rc_id p)) reviewComments)
               (filter (\<lambda>c. rc_inReplyToId c = None) reviewComments)
       \<and> (\<forall>c \<in> set reviewComments. \<forall>k.
             rc_inReplyToId c = Some k \<and> k \<notin> rc_id ` set reviewComments \<longrightarrow>
               (\<forall>t \<in> set (assembleThreads reviewComments).
                   c \<notin> set (replies t) \<and> parent t \<noteq> c))"
proof (intro conjI)
  have t: "filter isTopLevel reviewComments = filter (\<lambda>c. rc_inReplyToId c = None) reviewComments"
    using assms topLevel_fetched by simp
  show "map parent (assembleThreads reviewComments)
           = filter (\<lambda>c. rc_inReplyToId c = None) reviewComments"
    by (simp add: assembleThreads_def t comp_def)
  show "map replies (assembleThreads reviewComments)
           = map (\<lambda>p. filter (\<lambda>c. rc_inReplyToId c = Some (rc_id p)) reviewComments)
               (filter (\<lambda>c. rc_inReplyToId c = None) reviewComments)"
    by (simp add: assembleThreads_def t comp_def)
  show "\<forall>c \<in> set reviewComments. \<forall>k.
             rc_inReplyToId c = Some k \<and> k \<notin> rc_id ` set reviewComments \<longrightarrow>
               (\<forall>t \<in> set (assembleThreads reviewComments).
                   c \<notin> set (replies t) \<and> parent t \<noteq> c)"
  proof (intro ballI allI impI)
    fix c k t
    assume c: "c \<in> set reviewComments"
      and k: "rc_inReplyToId c = Some k \<and> k \<notin> rc_id ` set reviewComments"
      and t: "t \<in> set (assembleThreads reviewComments)"
    from t obtain p where p: "p \<in> set reviewComments" "isTopLevel p"
      and tp: "t = \<lparr>parent = p, replies = filter (\<lambda>c. rc_inReplyToId c = Some (rc_id p)) reviewComments\<rparr>"
      by (auto simp: assembleThreads_def)
    have "rc_inReplyToId p = None" using p assms isTopLevel_fetched by blast
    then have "parent t \<noteq> c" using k tp by auto
    moreover have "rc_id p \<noteq> k" using p k by auto
    then have "c \<notin> set (replies t)" using k tp by auto
    ultimately show "c \<notin> set (replies t) \<and> parent t \<noteq> c" by simp
  qed
qed

theorem threads_of_fetched_comments_witness:
  "assembleThreads (map toReviewComment
      [sampleComment 1 None, sampleComment 2 (Some 1), sampleComment 3 (Some 1),
       sampleComment 4 (Some 99)])
     = [\<lparr>parent = toReviewComment (sampleComment 1 None),
         replies = [toReviewComment (sampleComment 2 (Some 1)),
                    toReviewComment (sampleComment 3 (Some 1))]\<rparr>]
   \<and> rc_inReplyToId (toReviewComment (sampleComment 4 (Some 99))) = Some 99
   \<and> 99 \<notin> rc_id ` set (map toReviewComment
      [sampleComment 1 None, sampleComment 2 (Some 1), sampleComment 3 (Some 1),
       sampleComment 4 (Some 99)])"
proof -
  let ?raw = "[sampleComment 1 None, sampleComment 2 (Some 1), sampleComment 3 (Some 1),
       sampleComment 4 (Some 99)]"
  have e: "assembleThreads (map toReviewComment ?raw)
     = [\<lparr>parent = toReviewComment (sampleComment 1 None),
         replies = [toReviewComment (sampleComment 2 (Some 1)),
                    toReviewComment (sampleComment 3 (Some 1))]\<rparr>]"
    by (simp add: toReviewComment_def sampleComment_def assembleThreads_def isTopLevel_def)
  have d: "rc_inReplyToId (toReviewComment (sampleComment 4 (Some 99))) = Some 99"
    "99 \<notin> rc_id ` set (map toReviewComment ?raw)"
    by (simp_all add: toReviewComment_def sampleComment_def)
  from threads_of_fetched_comments[OF refl, of ?raw]
  have "map parent (assembleThreads (map toReviewComment ?raw))
           = filter (\<lambda>c. rc_inReplyToId c = None) (map toReviewComment ?raw)" by (rule conjunct1)
  with e d show ?thesis by simp
qed

text \<open>
  Claim C10. Whenever the comment tool returns its output, the reviews of the output are
  the reshaped raw reviews whose state is not \<open>PENDING\<close>, in input order, and
  \<open>totalReviews\<close> counts exactly those.
\<close>

theorem pending_reviews_excluded:
  assumes "execute_comments w pr repoArg = Returned (CommentsOutput out)"
  shows "\<exists>repoContext n reviewsRaw.
           cw_reviews w repoContext n = Inr reviewsRaw \<and>
           co_reviews out
             = map toReview (filter (\<lambda>r. raw_rv_state r \<noteq> js ''PENDING'') reviewsRaw) \<and>
           map rv_id (co_reviews out)
             = map raw_rv_id (filter (\<lambda>r. raw_rv_state r \<noteq> js ''PENDING'') reviewsRaw) \<and>
           map rv_state (co_reviews out)
             = filter (\<lambda>s. s \<noteq> js ''PENDING'') (map raw_rv_state reviewsRaw) \<and>
           totalReviews (co_stats out)
             = length (filter (\<lambda>r. raw_rv_state r \<noteq> js ''PENDING'') reviewsRaw)"
proof -
  from execute_comments_output[OF assms] obtain repoContext parsed where
    "commentsTryBlock w repoContext parsed = Inr out" by blast
  from commentsTryBlock_output[OF this] obtain reviewsRaw where
    r: "cw_reviews w repoContext (number parsed) = Inr reviewsRaw"
    and o: "co_reviews out = submittedReviews reviewsRaw"
      "totalReviews (co_stats out) = length (co_reviews out)"
    by blast
  have 1: "map rv_id (submittedReviews reviewsRaw)
             = map raw_rv_id (filter (\<lambda>r. raw_rv_state r \<noteq> js ''PENDING'') reviewsRaw)"
    by (simp add: submittedReviews_def toReview_def comp_def)
  have 2: "map rv_state (submittedReviews reviewsRaw)
             = filter (\<lambda>s. s \<noteq> js ''PENDING'') (map raw_rv_state reviewsRaw)"
    by (simp add: submittedReviews_def toReview_def comp_def filter_map)
  show ?thesis
    apply (rule exI[of _ repoContext], rule exI[of _ "number parsed"], rule exI[of _ reviewsRaw])
    using r o 1 2 by (simp add: submittedReviews_def)
qed

theorem pending_reviews_excluded_witness:
  "\<exists>out. execute_comments sampleCommentsWorld (js ''7'') (Some (js ''o/r''))
            = Returned (CommentsOutput out) \<and>
         map rv_id (co_reviews out) = [11, 13] \<and>
         map rv_state (co_reviews out) = [js ''APPROVED'', js ''COMMENTED''] \<and>
         totalReviews (co_stats out) = 2"
proof -
  have p: "parsePrReference (js ''7'') (Some (js ''o/r''))
             = Inr \<lparr>owner = js ''o'', repo = js ''r'', number = Num 7\<rparr>"
    by (simp add: resolver_eval)
  have k: "js ''a.ts'' \<notin> set objectPrototypeKeys"
    by (simp add: objectPrototypeKeys_def js_def)
  let ?parsed = "\<lparr>owner = js ''o'', repo = js ''r'', number = Num 7\<rparr>"
  have o: "owner ?parsed \<noteq> []" "repo ?parsed \<noteq> []"
    by (simp_all add: js_def)
  have a: "cw_review_comments sampleCommentsWorld rc n
             = Inr [sampleComment 1 None, sampleComment 2 (Some 1),
                    sampleComment 3 (Some 1), sampleComment 4 (Some 99)]"
    and b: "cw_issue_comments sampleCommentsWorld rc n = Inr []"
    and c: "cw_reviews sampleCommentsWorld rc n
             = Inr [sampleReview 11 ''APPROVED'', sampleReview 12 ''PENDING'',
                    sampleReview 13 ''COMMENTED'']" for rc n
    by (simp_all add: sampleCommentsWorld_def)
  have kk: "\<forall>x \<in> set [sampleComment 1 None, sampleComment 2 (Some 1),
                    sampleComment 3 (Some 1), sampleComment 4 (Some 99)].
              raw_rc_path x \<notin> set objectPrototypeKeys"
    using k by (simp add: sampleComment_def)
  from execute_comments_returns[OF p o a b c kk]
  obtain out where e: "execute_comments sampleCommentsWorld (js ''7'') (Some (js ''o/r''))
            = Returned (CommentsOutput out)"
    by blast
  from pending_reviews_excluded[OF e] obtain reviewsRaw where
    r: "reviewsRaw = [sampleReview 11 ''APPROVED'', sampleReview 12 ''PENDING'',
                                sampleReview 13 ''COMMENTED'']"
    and o: "map rv_id (co_reviews out)
             = map raw_rv_id (filter (\<lambda>r. raw_rv_state r \<noteq> js ''PENDING'') reviewsRaw)"
       "map rv_state (co_reviews out)
             = filter (\<lambda>s. s \<noteq> js ''PENDING'') (map raw_rv_state reviewsRaw)"
       "totalReviews (co_stats out)
             = length (filter (\<lambda>r. raw_rv_state r \<noteq> js ''PENDING'') reviewsRaw)"
    using c by auto
  have "map rv_id (co_reviews out) = [11, 13]"
    "map rv_state (co_reviews out) = [js ''APPROVED'', js ''COMMENTED'']"
    "totalReviews (co_stats out) = 2"
    unfolding o r by (simp_all add: sampleReview_def js_def)
  then show ?thesis using e by (intro exI[of _ out]) simp
qed

section \<open>Properties of the review tool\<close>

lemma execute_review_threw:
  assumes "parsePrReference pr repoArg = Inl e"
  shows "execute_review w pr repoArg reviewBody eventArg commentsArg dryRunArg = (Threw e, [])"
  using assms by (simp add: execute_review_def)

lemma execute_review_no_context:
  assumes "parsePrReference pr repoArg = Inr parsed"
    and "resolveRepoContext w parsed = (Inl r, calls)"
  shows "execute_review w pr repoArg reviewBody eventArg commentsArg dryRunArg = (Returned r, calls)"
  using assms by (simp add: execute_review_def)

lemma execute_review_no_sha:
  assumes "parsePrReference pr repoArg = Inr parsed"
    and "resolveRepoContext w parsed = (Inr repoContext, calls)"
    and "rw_head_sha w repoContext (number parsed) = Inl e"
  shows "execute_review w pr repoArg reviewBody eventArg commentsArg dryRunArg
           = (Returned (headShaError e), calls @ [HeadSha repoContext (number parsed)])"
  using assms by (simp add: execute_review_def)

lemma execute_review_dry:
  assumes "parsePrReference pr repoArg = Inr parsed"
    and "resolveRepoContext w parsed = (Inr repoContext, calls)"
    and "rw_head_sha w repoContext (number parsed) = Inr prResult"
  shows "execute_review w pr repoArg reviewBody eventArg commentsArg (Some True)
           = (Returned (dryRunResult repoContext parsed (withDefault COMMENT eventArg) reviewBody
                          (withDefault [] commentsArg)),
              calls @ [HeadSha repoContext (number parsed)])"
  using assms by (simp add: execute_review_def withDefault_def)



lemma dryRunResult_wouldSubmit:
  "field ''dryRun'' (dryRunResult rc parsed ev b cs) = Some (JBool True)"
  "field ''wouldSubmit'' (dryRunResult rc parsed ev b cs) =
     Some (JObject [(js ''repository'', JString rc),
                    (js ''pullRequest'', JNumber (number parsed)),
                    (js ''prUrl'', JString (js ''https://github.com/'' @ rc
                                      @ js ''/pull/'' @ numberToString (number parsed))),
                    (js ''event'', JString (eventName ev)),
                    (js ''reviewBody'', JString b),
                    (js ''inlineComments'', JArray (map previewComment cs)),
                    (js ''totalInlineComments'', JNumber (Num (int (length cs))))])"
  by (simp_all add: dryRunResult_def field_def properties_def js_def)

lemma wouldSubmit_fields:
  assumes "ws = JObject [(js ''repository'', JString rc),
                    (js ''pullRequest'', JNumber n),
                    (js ''prUrl'', JString u),
                    (js ''event'', JString e),
                    (js ''reviewBody'', JString b),
                    (js ''inlineComments'', JArray cs),
                    (js ''totalInlineComments'', JNumber t)]"
  shows "field ''repository'' ws = Some (JString rc)"
    "field ''pullRequest'' ws = Some (JNumber n)"
    "field ''prUrl'' ws = Some (JString u)"
    "field ''event'' ws = Some (JString e)"
    "field ''reviewBody'' ws = Some (JString b)"
    "field ''inlineComments'' ws = Some (JArray cs)"
    "field ''totalInlineComments'' ws = Some (JNumber t)"
  unfolding assms by (simp_all add: field_def properties_def js_def)

lemma payload_fields:
  "field ''commit_id'' (buildReviewPayload sha b ev cs) = Some (JString sha)"
  "field ''body'' (buildReviewPayload sha b ev cs) = Some (JString b)"
  "field ''event'' (buildReviewPayload sha b ev cs) = Some (JString (eventName ev))"
  "field ''comments'' (buildReviewPayload sha b ev cs)
     = (if cs = [] then None else Some (JArray (map payloadComment cs)))"
  by (simp_all add: buildReviewPayload_def field_def properties_def js_def)

lemma payloadComment_fields:
  "field ''path'' (payloadComment c) = Some (JString (path c))"
  "field ''line'' (payloadComment c) = Some (JNumber (Num (line c)))"
  "field ''body'' (payloadComment c) = Some (JString (body c))"
  "field ''side'' (payloadComment c) = map_option (\<lambda>s. JString (sideName s)) (side c)"
  "field ''start_line'' (payloadComment c)
     = (case startLine c of None \<Rightarrow> None
        | Some n \<Rightarrow> if n = 0 then None else Some (JNumber (Num n)))"
  "field ''start_side'' (payloadComment c) = map_option (\<lambda>s. JString (sideName s)) (startSide c)"
  by (auto simp add: payloadComment_def field_def properties_def optField_def js_def split: option.splits)

lemma previewComment_fields:
  "field ''file'' (previewComment c) = Some (JString (path c))"
  "field ''line'' (previewComment c) = Some (JNumber (Num (line c)))"
  "field ''body'' (previewComment c) = Some (JString (body c))"
  "field ''startLine'' (previewComment c) = map_option (\<lambda>n. JNumber (Num n)) (startLine c)"
  "field ''side'' (previewComment c) = None"
  "field ''startSide'' (previewComment c) = None"
  "field ''start_side'' (previewComment c) = None"
  by (auto simp add: previewComment_def field_def properties_def optField_def js_def split: option.splits)



lemma sample_parse_bare:
  "parsePrReference (js ''5'') None = Inr \<lparr>owner = [], repo = [], number = Num 5\<rparr>"
  by (simp add: resolver_eval)


lemma sample_parse_invalid:
  "parsePrReference (js ''abc'') repoArg = Inl (invalidReference (js ''abc''))"
  by (simp add: resolver_eval)

lemma sample_context_ambient:
  "resolveRepoContext sampleWorld \<lparr>owner = [], repo = [], number = Num 5\<rparr>
     = (Inr (js ''o/r''), [RepoView])"
  by (simp add: resolveRepoContext_def sampleWorld_def trim_def isWhiteSpace_def js_def)


lemma sample_head_sha: "rw_head_sha sampleWorld rc n = Inr (js ''abc123'')"
  by (simp add: sampleWorld_def)


lemma payloadComments_build:
  "payloadComments (buildReviewPayload sha b ev cs) = map payloadComment cs"
  by (simp add: payloadComments_def payload_fields elements_def)

lemma previewComments_dry:
  "previewComments (dryRunResult rc parsed ev b cs) = map previewComment cs"
  by (simp add: previewComments_def dryRunResult_wouldSubmit wouldSubmit_fields[OF refl] elements_def)

lemma previewField_dry:
  "previewField ''event'' (dryRunResult rc parsed ev b cs) = Some (JString (eventName ev))"
  "previewField ''reviewBody'' (dryRunResult rc parsed ev b cs) = Some (JString b)"
  "previewField ''totalInlineComments'' (dryRunResult rc parsed ev b cs)
     = Some (JNumber (Num (int (length cs))))"
  by (simp_all add: previewField_def dryRunResult_wouldSubmit wouldSubmit_fields[OF refl])

lemma sample_json: "rw_JSON_parse sampleWorld t = Inr (JObject [])"
  by (simp add: sampleWorld_def)

lemma execute_review_rejected:
  assumes "parsePrReference pr repoArg = Inr parsed"
    and "resolveRepoContext w parsed = (Inr repoContext, calls)"
    and "rw_head_sha w repoContext (number parsed) = Inr prResult"
    and "dryRunArg = None \<or> dryRunArg = Some False"
  shows "execute_review w pr repoArg reviewBody eventArg commentsArg dryRunArg
           = (Returned (reviewCatch w (rw_hereString w)),
              calls @ [HeadSha repoContext (number parsed),
                       PostReview repoContext (number parsed)
                         (buildReviewPayload (trim prResult) reviewBody
                            (withDefault COMMENT eventArg) (withDefault [] commentsArg))])"
  using assms
  by (auto simp: execute_review_def postReview_def withDefault_def Let_def)

lemma apiErrorResult_error:
  "apiErrorResult w message = Some r \<Longrightarrow>
     field ''error'' r = Some (JString (js ''Failed to submit review'')) \<and> field ''success'' r = None"
  by (auto simp: apiErrorResult_def field_def properties_def optField_def js_def
      split: option.splits sum.splits)

lemma reviewCatch_error:
  "(\<exists>m. field ''error'' (reviewCatch w e) = Some (JString m)) \<and>
   field ''success'' (reviewCatch w e) = None"
proof (cases e)
  case (Error message)
  show ?thesis
  proof (cases "apiErrorResult w message")
    case None
    then show ?thesis
      by (simp add: reviewCatch_def Error errorObject_def field_def properties_def js_def)
  next
    case (Some r)
    then show ?thesis using apiErrorResult_error[OF Some] by (simp add: reviewCatch_def Error)
  qed
next
  case NonError
  then show ?thesis
    by (simp add: reviewCatch_def errorObject_def field_def properties_def js_def)
qed

text \<open>
  The reads of a dry run, without conditions on their outcome: when the reference is
  valid and names no repository, the dry run asks for the repository; when the repository
  is known, it asks for the head commit.
\<close>

lemma execute_review_asks_repository:
  assumes "parsePrReference pr repoArg = Inr parsed"
    and "owner parsed = [] \<or> repo parsed = []"
  shows "RepoView \<in> set (snd (execute_review w pr repoArg reviewBody eventArg commentsArg dryRunArg))"
proof -
  have "\<exists>x. resolveRepoContext w parsed = (x, [RepoView])"
    using assms(2) by (cases "rw_repo_view w") (auto simp: resolveRepoContext_def)
  then obtain x where r: "resolveRepoContext w parsed = (x, [RepoView])" by blast
  show ?thesis
  proof (cases x)
    case (Inl err)
    then show ?thesis using execute_review_no_context[OF assms(1)] r by simp
  next
    case ctx: (Inr repoContext)
    show ?thesis
    proof (cases "rw_head_sha w repoContext (number parsed)")
      case (Inl e)
      then show ?thesis using execute_review_no_sha[OF assms(1)] r ctx by simp
    next
      case (Inr prResult)
      show ?thesis
      proof (cases "dryRunArg = Some True")
        case True
        then show ?thesis using execute_review_dry[OF assms(1) _ Inr] r ctx by simp
      next
        case False
        then have "dryRunArg = None \<or> dryRunArg = Some False" by (cases dryRunArg) auto
        then show ?thesis using execute_review_rejected[OF assms(1) _ Inr] r ctx by simp
      qed
    qed
  qed
qed

lemma execute_review_asks_head_commit:
  assumes "parsePrReference pr repoArg = Inr parsed"
    and "resolveRepoContext w parsed = (Inr repoContext, calls)"
  shows "HeadSha repoContext (number parsed)
           \<in> set (snd (execute_review w pr repoArg reviewBody eventArg commentsArg dryRunArg))"
proof (cases "rw_head_sha w repoContext (number parsed)")
  case (Inl e)
  then show ?thesis using execute_review_no_sha[OF assms] by simp
next
  case (Inr prResult)
  show ?thesis
  proof (cases "dryRunArg = Some True")
    case True
    then show ?thesis using execute_review_dry[OF assms Inr] by simp
  next
    case False
    then have "dryRunArg = None \<or> dryRunArg = Some False" by (cases dryRunArg) auto
    then show ?thesis using execute_review_rejected[OF assms Inr] by simp
  qed
qed




text \<open>
  Claim C5, as amended. For the same inputs the dry-run echo and the payload list the same
  inline comments in input order. An echo entry has exactly the properties \<open>file\<close>,
  \<open>line\<close>, \<open>startLine\<close> (when the comment gives one) and \<open>body\<close>, with the path, the
  line, the start line and the body of the comment; the payload comment has the same
  \<open>path\<close>, \<open>line\<close> and \<open>body\<close>, and as \<open>start_line\<close> the start line of the comment
  when it is given and not 0. So \<open>startLine\<close> and \<open>start_line\<close> agree, both missing or
  both the same number, for every comment whose start line is not 0. The event and the
  review body agree, and \<open>totalInlineComments\<close> is the number of comments.
\<close>

theorem preview_agrees_with_payload:
  "length (previewComments (dryRunResult repoContext parsed event reviewBody comments))
     = length comments \<and>
   length (payloadComments (buildReviewPayload commitId reviewBody event comments))
     = length comments \<and>
   map (field ''file'') (previewComments (dryRunResult repoContext parsed event reviewBody comments))
     = map (field ''path'') (payloadComments (buildReviewPayload commitId reviewBody event comments)) \<and>
   map (field ''line'') (previewComments (dryRunResult repoContext parsed event reviewBody comments))
     = map (field ''line'') (payloadComments (buildReviewPayload commitId reviewBody event comments)) \<and>
   map (field ''body'') (previewComments (dryRunResult repoContext parsed event reviewBody comments))
     = map (field ''body'') (payloadComments (buildReviewPayload commitId reviewBody event comments)) \<and>
   map (field ''file'') (previewComments (dryRunResult repoContext parsed event reviewBody comments))
     = map (\<lambda>c. Some (JString (path c))) comments \<and>
   map (field ''line'') (previewComments (dryRunResult repoContext parsed event reviewBody comments))
     = map (\<lambda>c. Some (JNumber (Num (line c)))) comments \<and>
   map (field ''body'') (previewComments (dryRunResult repoContext parsed event reviewBody comments))
     = map (\<lambda>c. Some (JString (body c))) comments \<and>
   map (field ''startLine'')
       (previewComments (dryRunResult repoContext parsed event reviewBody comments))
     = map (\<lambda>c. map_option (\<lambda>n. JNumber (Num n)) (startLine c)) comments \<and>
   map keys (previewComments (dryRunResult repoContext parsed event reviewBody comments))
     = map (\<lambda>c. [js ''file'', js ''line'']
                  @ (if startLine c = None then [] else [js ''startLine''])
                  @ [js ''body'']) comments \<and>
   map (field ''start_line'')
       (payloadComments (buildReviewPayload commitId reviewBody event comments))
     = map (\<lambda>c. if startLine c = Some 0 then None
                 else map_option (\<lambda>n. JNumber (Num n)) (startLine c)) comments \<and>
   (\<forall>i < length comments. startLine (comments ! i) \<noteq> Some 0 \<longrightarrow>
      field ''startLine''
        (previewComments (dryRunResult repoContext parsed event reviewBody comments) ! i)
      = field ''start_line''
          (payloadComments (buildReviewPayload commitId reviewBody event comments) ! i)) \<and>
   previewField ''event'' (dryRunResult repoContext parsed event reviewBody comments)
     = field ''event'' (buildReviewPayload commitId reviewBody event comments) \<and>
   previewField ''reviewBody'' (dryRunResult repoContext parsed event reviewBody comments)
     = field ''body'' (buildReviewPayload commitId reviewBody event comments) \<and>
   previewField ''totalInlineComments'' (dryRunResult repoContext parsed event reviewBody comments)
     = Some (JNumber (Num (int (length comments))))"
proof -
  have k: "keys (previewComment c)
             = [js ''file'', js ''line''] @ (if startLine c = None then [] else [js ''startLine''])
               @ [js ''body'']" for c
    by (cases "startLine c")
      (simp_all add: keys_def properties_def previewComment_def optField_def)
  have p: "field ''start_line'' (payloadComment c)
             = (if startLine c = Some 0 then None
                else map_option (\<lambda>n. JNumber (Num n)) (startLine c))" for c
    by (cases "startLine c") (simp_all add: payloadComment_fields)
  have a: "startLine c \<noteq> Some 0 \<Longrightarrow>
             field ''startLine'' (previewComment c) = field ''start_line'' (payloadComment c)" for c
    by (simp add: p previewComment_fields)
  show ?thesis
    by (simp add: payloadComments_build previewComments_dry previewField_dry payload_fields
        payloadComment_fields(1-3) previewComment_fields(1-4) comp_def k p a)
qed

theorem preview_agrees_with_payload_witness:
  "payloadComments (buildReviewPayload (js ''abc123'') (js ''ok'') COMMENT
      [\<lparr>path = js ''a.ts'', line = 7, side = None, startLine = Some 3, startSide = None,
        body = js ''x''\<rparr>,
       \<lparr>path = js ''b.ts'', line = 2, side = None, startLine = None, startSide = None,
        body = js ''y''\<rparr>])
     = [JObject [(js ''path'', JString (js ''a.ts'')), (js ''line'', JNumber (Num 7)),
                 (js ''body'', JString (js ''x'')), (js ''start_line'', JNumber (Num 3))],
        JObject [(js ''path'', JString (js ''b.ts'')), (js ''line'', JNumber (Num 2)),
                 (js ''body'', JString (js ''y''))]] \<and>
   previewComments (dryRunResult (js ''o/r'') \<lparr>owner = [], repo = [], number = Num 5\<rparr> COMMENT
      (js ''ok'')
      [\<lparr>path = js ''a.ts'', line = 7, side = None, startLine = Some 3, startSide = None,
        body = js ''x''\<rparr>,
       \<lparr>path = js ''b.ts'', line = 2, side = None, startLine = None, startSide = None,
        body = js ''y''\<rparr>])
     = [JObject [(js ''file'', JString (js ''a.ts'')), (js ''line'', JNumber (Num 7)),
                 (js ''startLine'', JNumber (Num 3)), (js ''body'', JString (js ''x''))],
        JObject [(js ''file'', JString (js ''b.ts'')), (js ''line'', JNumber (Num 2)),
                 (js ''body'', JString (js ''y''))]] \<and>
   map (field ''startLine'')
     (previewComments (dryRunResult (js ''o/r'') \<lparr>owner = [], repo = [], number = Num 5\<rparr>
        COMMENT (js ''ok'')
        [\<lparr>path = js ''a.ts'', line = 7, side = None, startLine = Some 3, startSide = None,
          body = js ''x''\<rparr>,
         \<lparr>path = js ''b.ts'', line = 2, side = None, startLine = None, startSide = None,
          body = js ''y''\<rparr>]))
     = [Some (JNumber (Num 3)), None] \<and>
   map (field ''start_line'')
     (payloadComments (buildReviewPayload (js ''abc123'') (js ''ok'') COMMENT
        [\<lparr>path = js ''a.ts'', line = 7, side = None, startLine = Some 3, startSide = None,
          body = js ''x''\<rparr>,
         \<lparr>path = js ''b.ts'', line = 2, side = None, startLine = None, startSide = None,
          body = js ''y''\<rparr>]))
     = [Some (JNumber (Num 3)), None]"
proof -
  let ?c = "\<lparr>path = js ''a.ts'', line = 7, side = None, startLine = Some 3, startSide = None,
        body = js ''x''\<rparr>"
  let ?d = "\<lparr>path = js ''b.ts'', line = 2, side = None, startLine = None, startSide = None,
        body = js ''y''\<rparr>"
  have p: "payloadComment ?c
     = JObject [(js ''path'', JString (js ''a.ts'')), (js ''line'', JNumber (Num 7)),
                 (js ''body'', JString (js ''x'')), (js ''start_line'', JNumber (Num 3))]"
    "payloadComment ?d
     = JObject [(js ''path'', JString (js ''b.ts'')), (js ''line'', JNumber (Num 2)),
                 (js ''body'', JString (js ''y''))]"
    by (simp_all add: payloadComment_def optField_def)
  have v: "previewComment ?c
     = JObject [(js ''file'', JString (js ''a.ts'')), (js ''line'', JNumber (Num 7)),
                 (js ''startLine'', JNumber (Num 3)), (js ''body'', JString (js ''x''))]"
    "previewComment ?d
     = JObject [(js ''file'', JString (js ''b.ts'')), (js ''line'', JNumber (Num 2)),
                 (js ''body'', JString (js ''y''))]"
    by (simp_all add: previewComment_def optField_def)
  note t = preview_agrees_with_payload[of "js ''o/r''" "\<lparr>owner = [], repo = [], number = Num 5\<rparr>"
      COMMENT "js ''ok''" "[?c, ?d]" "js ''abc123''"]
  from t have 1: "map (field ''startLine'')
     (previewComments (dryRunResult (js ''o/r'') \<lparr>owner = [], repo = [], number = Num 5\<rparr>
        COMMENT (js ''ok'') [?c, ?d]))
     = map (\<lambda>c. map_option (\<lambda>n. JNumber (Num n)) (startLine c)) [?c, ?d]"
    by blast
  from t have 2: "map (field ''start_line'')
     (payloadComments (buildReviewPayload (js ''abc123'') (js ''ok'') COMMENT [?c, ?d]))
     = map (\<lambda>c. if startLine c = Some 0 then None
                 else map_option (\<lambda>n. JNumber (Num n)) (startLine c)) [?c, ?d]"
    by blast
  have 3: "map (\<lambda>c. map_option (\<lambda>n. JNumber (Num n)) (startLine c)) [?c, ?d]
             = [Some (JNumber (Num 3)), None]"
    "map (\<lambda>c. if startLine c = Some 0 then None
                 else map_option (\<lambda>n. JNumber (Num n)) (startLine c)) [?c, ?d]
             = [Some (JNumber (Num 3)), None]"
    by simp_all
  show ?thesis
    unfolding 1 2 3 by (simp add: payloadComments_build previewComments_dry p v)
qed

text \<open>
  As the claim is stated it does not hold: the two shapes do not have the same properties.
  For a comment with a side the payload comment has \<open>path\<close>, \<open>line\<close>, \<open>body\<close> and
  \<open>side\<close>, the echo has \<open>file\<close>, \<open>line\<close> and \<open>body\<close>.
\<close>

theorem preview_drops_side_counterexample:
  "keys (payloadComment \<lparr>path = js ''a.ts'', line = 3, side = Some RIGHT, startLine = None,
           startSide = None, body = js ''x''\<rparr>)
     = [js ''path'', js ''line'', js ''body'', js ''side''] \<and>
   keys (previewComment \<lparr>path = js ''a.ts'', line = 3, side = Some RIGHT, startLine = None,
           startSide = None, body = js ''x''\<rparr>)
     = [js ''file'', js ''line'', js ''body'']"
  by (simp add: keys_def properties_def payloadComment_def previewComment_def optField_def)

text \<open>
  Claim C8 says that a submission without inline comments leaves the \<open>comments\<close>
  property out of the payload and otherwise proceeds normally. The payload is as the claim
  says: built for an empty sequence of inline comments it has the properties
  \<open>commit_id\<close>, \<open>body\<close> and \<open>event\<close> and no \<open>comments\<close>. The submission does not
  proceed: the command of line 153 that carries the payload is rejected by the shell, and
  \<open>execute\<close> returns an object with an \<open>error\<close> property and no \<open>success\<close>.
\<close>

theorem empty_comments_submission_rejected:
  "field ''comments'' (buildReviewPayload commitId reviewBody event []) = None \<and>
   keys (buildReviewPayload commitId reviewBody event [])
     = [js ''commit_id'', js ''body'', js ''event''] \<and>
   (parsePrReference pr repoArg = Inr parsed \<and>
    resolveRepoContext w parsed = (Inr repoContext, calls) \<and>
    rw_head_sha w repoContext (number parsed) = Inr prResult \<and>
    (commentsArg = None \<or> commentsArg = Some []) \<and>
    (dryRunArg = None \<or> dryRunArg = Some False) \<longrightarrow>
      execute_review w pr repoArg reviewBody eventArg commentsArg dryRunArg
        = (Returned (reviewCatch w (rw_hereString w)),
           calls @ [HeadSha repoContext (number parsed),
                    PostReview repoContext (number parsed)
                      (JObject [(js ''commit_id'', JString (trim prResult)),
                                (js ''body'', JString reviewBody),
                                (js ''event'',
                                   JString (eventName (withDefault COMMENT eventArg)))])]) \<and>
      (\<exists>m. field ''error'' (reviewCatch w (rw_hereString w)) = Some (JString m)) \<and>
      field ''success'' (reviewCatch w (rw_hereString w)) = None)"
proof (intro conjI impI)
  show "field ''comments'' (buildReviewPayload commitId reviewBody event []) = None"
    by (simp add: payload_fields)
  show "keys (buildReviewPayload commitId reviewBody event [])
     = [js ''commit_id'', js ''body'', js ''event'']"
    by (simp add: keys_def properties_def buildReviewPayload_def)
  show "\<exists>m. field ''error'' (reviewCatch w (rw_hereString w)) = Some (JString m)"
    "field ''success'' (reviewCatch w (rw_hereString w)) = None"
    using reviewCatch_error by blast+
next
  assume a: "parsePrReference pr repoArg = Inr parsed \<and>
    resolveRepoContext w parsed = (Inr repoContext, calls) \<and>
    rw_head_sha w repoContext (number parsed) = Inr prResult \<and>
    (commentsArg = None \<or> commentsArg = Some []) \<and>
    (dryRunArg = None \<or> dryRunArg = Some False)"
  then have cs: "withDefault [] commentsArg = []" by (auto simp: withDefault_def)
  have pl: "buildReviewPayload (trim prResult) reviewBody (withDefault COMMENT eventArg) []
              = JObject [(js ''commit_id'', JString (trim prResult)),
                               (js ''body'', JString reviewBody),
                               (js ''event'', JString (eventName (withDefault COMMENT eventArg)))]"
    by (simp add: buildReviewPayload_def)
  from a execute_review_rejected[of pr repoArg parsed w repoContext calls prResult dryRunArg
      reviewBody eventArg commentsArg]
  show "execute_review w pr repoArg reviewBody eventArg commentsArg dryRunArg
        = (Returned (reviewCatch w (rw_hereString w)),
           calls @ [HeadSha repoContext (number parsed),
                    PostReview repoContext (number parsed)
                      (JObject [(js ''commit_id'', JString (trim prResult)),
                                (js ''body'', JString reviewBody),
                                (js ''event'',
                                   JString (eventName (withDefault COMMENT eventArg)))])])"
    by (simp add: cs pl)
qed

lemma sample_here_string:
  "reviewCatch sampleWorld (rw_hereString sampleWorld)
     = errorObject (js ''Redirection with no file'')"
proof -
  have b: "apiErrorResult sampleWorld (js ''Redirection with no file'') = None"
    by (simp add: apiErrorResult_def braceMatch_def js_def)
  have i: "\<not> jsIncludes (js ''Redirection with no file'') (js ''gh: command not found'')"
    "\<not> jsIncludes (js ''Redirection with no file'') (js ''not logged in'')"
    "\<not> jsIncludes (js ''Redirection with no file'') (js ''401'')"
    "\<not> jsIncludes (js ''Redirection with no file'') (js ''422'')"
    by (simp_all add: js_def)
  show ?thesis
    by (simp add: reviewCatch_def sampleWorld_def[THEN arg_cong, of rw_hereString] b i)
qed

theorem empty_comments_submission_rejected_witness:
  "parsePrReference (js ''5'') None = Inr \<lparr>owner = [], repo = [], number = Num 5\<rparr> \<and>
   resolveRepoContext sampleWorld \<lparr>owner = [], repo = [], number = Num 5\<rparr>
     = (Inr (js ''o/r''), [RepoView]) \<and>
   rw_head_sha sampleWorld (js ''o/r'') (Num 5) = Inr (js ''abc123'') \<and>
   execute_review sampleWorld (js ''5'') None (js ''ok'') None (Some []) None
     = (Returned (errorObject (js ''Redirection with no file'')),
        [RepoView, HeadSha (js ''o/r'') (Num 5),
         PostReview (js ''o/r'') (Num 5)
           (JObject [(js ''commit_id'', JString (js ''abc123'')),
                     (js ''body'', JString (js ''ok'')),
                     (js ''event'', JString (js ''COMMENT''))])])"
proof -
  have t: "trim (js ''abc123'') = js ''abc123''"
    by (simp add: trim_def isWhiteSpace_def js_def)
  have e: "eventName (withDefault COMMENT None) = js ''COMMENT''"
    by (simp add: eventName_def withDefault_def)
  from empty_comments_submission_rejected[where pr = "js ''5''" and repoArg = None
      and parsed = "\<lparr>owner = [], repo = [], number = Num 5\<rparr>" and w = sampleWorld
      and repoContext = "js ''o/r''" and calls = "[RepoView]" and prResult = "js ''abc123''"
      and commentsArg = "Some []" and dryRunArg = None and reviewBody = "js ''ok''"
      and eventArg = None]
    sample_parse_bare sample_context_ambient sample_head_sha[of "js ''o/r''" "Num 5"]
  show ?thesis
    by (simp add: t e sample_here_string)
qed

section \<open>Errors at the tool boundary\<close>

text \<open>
  Each tool throws exactly when \<open>parsePrReference\<close> throws, and then it throws the same
  error: the call stands before every \<open>try\<close>.
\<close>

lemma execute_pr_threw_iff:
  "execute_pr w pr repoArg = Threw e \<longleftrightarrow> parsePrReference pr repoArg = Inl e"
  by (auto simp: execute_pr_def Let_def split: sum.splits)

lemma execute_comments_threw_iff:
  "execute_comments w pr repoArg = Threw e \<longleftrightarrow> parsePrReference pr repoArg = Inl e"
  by (auto simp: execute_comments_def split: sum.splits if_splits)

lemma execute_review_threw_iff:
  "fst (execute_review w pr repoArg reviewBody eventArg commentsArg dryRunArg) = Threw e
     \<longleftrightarrow> parsePrReference pr repoArg = Inl e"
  by (auto simp: execute_review_def Let_def split: sum.splits prod.splits if_splits)

text \<open>
  Claim C1 says that no tool throws and that a malformed reference yields an object with
  an \<open>error\<close> property. On the reference \<open>abc\<close> each of the three tools throws the
  error \<open>Invalid PR reference: abc. Provide a PR URL or number.\<close>, whatever the
  external calls would return.
\<close>

theorem invalid_reference_is_thrown:
  "execute_pr pw (js ''abc'') repoArg = Threw (invalidReference (js ''abc'')) \<and>
   execute_comments cw (js ''abc'') repoArg = Threw (invalidReference (js ''abc'')) \<and>
   execute_review rw (js ''abc'') repoArg reviewBody eventArg commentsArg dryRunArg
     = (Threw (invalidReference (js ''abc'')), [])"
  using sample_parse_invalid[of repoArg]
  by (simp add: execute_pr_threw_iff execute_comments_threw_iff execute_review_threw)

end
